theory Spec2Isabelle
  imports Main "HOL-Library.Char_ord" "HOL-Library.List_Lexorder"
begin

section \<open>The chat-git commands of \<^verbatim>\<open>chatGitCommand.ts\<close>\<close>

text \<open>
  The four sub-commands \<^verbatim>\<open>list\<close>, \<^verbatim>\<open>save\<close>, \<^verbatim>\<open>resume\<close> and \<^verbatim>\<open>delete\<close> of
  \<^verbatim>\<open>/chat-git\<close> work on three stores: the ledger file \<^verbatim>\<open>.gemini/chatGitTags.json\<close>,
  the checkpoint store behind \<^verbatim>\<open>context.services.logger\<close>, and the git repository
  behind \<^verbatim>\<open>simpleGit(process.cwd())\<close>. Each command is a function from the state of
  these stores (a \<open>world\<close>) to its return value and the new state. A thrown error that
  the command does not catch is the \<open>Inl\<close> of the result; an error is the string that
  the template literal \<^verbatim>\<open>${error}\<close> prints for it.
\<close>

subsection \<open>Data\<close>

type_synonym exn = string

text \<open>A ledger entry, \<^verbatim>\<open>{ commitHash : string; tag : string }\<close>.\<close>

record entry =
  tag :: string
  commitHash :: string

text \<open>
  \<^verbatim>\<open>Content\<close> and \<^verbatim>\<open>Part\<close> of the conversation history: \<^verbatim>\<open>role\<close>, \<^verbatim>\<open>parts\<close> and
  \<^verbatim>\<open>text\<close> are optional properties (\<open>None\<close> is \<^verbatim>\<open>undefined\<close>). A part that is not
  a text part has no \<^verbatim>\<open>text\<close>.
\<close>

record part =
  part_text :: "string option"

record content =
  role :: "string option"
  parts :: "part list option"

record checkpoint =
  history :: "content list"
  authType :: "string option"

datatype MessageType = USER | GEMINI

text \<open>
  What the field \<^verbatim>\<open>type\<close> of a display item holds. Resume fills it under a cast (line
  367) with what it reads from the object \<^verbatim>\<open>rolemap\<close>: a message type, or the member
  of that name which the object inherits from \<^verbatim>\<open>Object.prototype\<close>.
\<close>

datatype type_value = Enum MessageType | Member string

record HistoryItemWithoutId =
  item_type :: type_value
  item_text :: string

record ChatDetail =
  name :: string
  mtime :: string

datatype messageType = Info | Error

text \<open>
  \<^verbatim>\<open>SlashCommandActionReturn\<close>: a message, the request to confirm an overwrite (the
  tag shown in the prompt and \<^verbatim>\<open>originalInvocation.raw\<close>), or the history to load
  (\<^verbatim>\<open>history\<close> and \<^verbatim>\<open>clientHistory\<close>).
\<close>

datatype action_return =
    Message messageType string
  | ConfirmAction string string
  | LoadHistory "HistoryItemWithoutId list" "content list"

subsection \<open>The stores\<close>

text \<open>
  The text of the ledger file is seen through \<^verbatim>\<open>JSON.parse\<close> only: either parsing
  throws, or it yields the array of entries that \<^verbatim>\<open>JSON.stringify\<close> wrote (a text that
  parses to anything else is not considered). The file is absent (\<^verbatim>\<open>existsSync\<close> is
  false), present but \<^verbatim>\<open>readFileSync\<close> throws, or readable.
\<close>

datatype json_text = NotJSON exn | JSONArray "entry list"

datatype file_state = Absent | Unreadable exn | Readable json_text

text \<open>
  The repository is seen through the operations of \<^verbatim>\<open>simple-git\<close> that the commands
  invoke. The record holds what each of them answers during one run of a command
  (\<open>Inl\<close> or \<open>Some\<close>: the promise is rejected with that error); \<open>isClean\<close> is the
  answer of \<^verbatim>\<open>status(['--porcelain'])\<close> followed by \<^verbatim>\<open>isClean()\<close>.
\<close>

record SimpleGit =
  checkIsRepo :: "exn + bool"
  isClean :: "exn + bool"
  add :: "exn option"
  commit :: "exn option"
  revparse :: "exn + string"
  checkout :: "string \<Rightarrow> exn option"

text \<open>
  Every invocation of the repository, of the checkpoint store, of \<^verbatim>\<open>writeFileSync\<close>
  and of \<^verbatim>\<open>context.ui.addItem\<close> is recorded, in order.
\<close>

datatype call =
    CheckIsRepo | Status | Add string | Commit string | Revparse | Checkout string
  | Initialize | CheckpointExists string | SaveCheckpoint checkpoint string
  | LoadCheckpoint string | DeleteCheckpoint string
  | WriteFileSync json_text
  | AddItem "ChatDetail list"

record world =
  ledger_file :: file_state
  write_error :: "exn option"
  stat :: "string \<Rightarrow> exn + string"
  checkpoints :: "string \<rightharpoonup> checkpoint"
  repo :: SimpleGit
  calls :: "call list"

text \<open>
  What the commands read of \<^verbatim>\<open>CommandContext\<close>: \<^verbatim>\<open>overwriteConfirmed\<close>,
  \<^verbatim>\<open>invocation?.raw\<close>, the history of \<^verbatim>\<open>config?.getGeminiClient()?.getChat()\<close>
  (\<open>None\<close>: there is no chat), \<^verbatim>\<open>config?.getContentGeneratorConfig()?.authType\<close> and
  \<^verbatim>\<open>config?.storage?.getProjectTempDir()\<close>.
\<close>

record CommandContext =
  overwriteConfirmed :: bool
  invocation_raw :: "string option"
  chat :: "content list option"
  currentAuthType :: "string option"
  projectTempDir :: "string option"

text \<open>
  The two imports from \<^verbatim>\<open>@google/gemini-cli-core\<close> that the commands use are
  parameters: the function \<^verbatim>\<open>decodeTagName\<close> and the constant
  \<^verbatim>\<open>INITIAL_HISTORY_LENGTH\<close>, the length of the hidden initial context.
\<close>

record core =
  decodeTagName :: "string \<Rightarrow> string"
  INITIAL_HISTORY_LENGTH :: nat

definition log :: "call \<Rightarrow> world \<Rightarrow> world" where
  "log c w = w\<lparr>calls := calls w @ [c]\<rparr>"

subsection \<open>JavaScript built-ins\<close>

text \<open>
  \<^verbatim>\<open>String.prototype.trim\<close> on the white space and line terminators of ASCII (a
  \<open>string\<close> is a list of bytes).
\<close>

definition isWhiteSpace :: "char \<Rightarrow> bool" where
  "isWhiteSpace c =
     (c \<in> set [CHR 0x09, CHR 0x0A, CHR 0x0B, CHR 0x0C, CHR 0x0D, CHR 0x20])"

definition trim :: "string \<Rightarrow> string" where
  "trim s = rev (dropWhile isWhiteSpace (rev (dropWhile isWhiteSpace s)))"

text \<open>\<^verbatim>\<open>Array.prototype.findIndex\<close>: the first index at which the predicate holds, or -1.\<close>

fun findIndex_from :: "('a \<Rightarrow> bool) \<Rightarrow> int \<Rightarrow> 'a list \<Rightarrow> int" where
  "findIndex_from P k [] = -1"
| "findIndex_from P k (x # xs) = (if P x then k else findIndex_from P (k + 1) xs)"

definition findIndex :: "('a \<Rightarrow> bool) \<Rightarrow> 'a list \<Rightarrow> int" where
  "findIndex P xs = findIndex_from P 0 xs"

text \<open>
  \<^verbatim>\<open>Array.prototype.splice(start, deleteCount)\<close>, the array that is left: a negative
  \<open>start\<close> counts from the end, and both arguments are clamped to the array.
\<close>

definition splice :: "int \<Rightarrow> int \<Rightarrow> 'a list \<Rightarrow> 'a list" where
  "splice start deleteCount xs =
     (let len = int (length xs);
          actualStart = (if start < 0 then max (len + start) 0 else min start len);
          actualDeleteCount = min (max deleteCount 0) (len - actualStart)
      in take (nat actualStart) xs @ drop (nat (actualStart + actualDeleteCount)) xs)"

subsection \<open>The ledger file\<close>

definition chatGitLogFile :: string where
  "chatGitLogFile = ''.gemini/chatGitTags.json''"

definition existsSync :: "world \<Rightarrow> bool" where
  "existsSync w = (case ledger_file w of Absent \<Rightarrow> False | _ \<Rightarrow> True)"

definition readFileSync :: "world \<Rightarrow> exn + json_text" where
  "readFileSync w =
     (case ledger_file w of
        Absent \<Rightarrow>
          Inl (''Error: ENOENT: no such file or directory, open '' @ [CHR 0x27] @ chatGitLogFile @
               [CHR 0x27])
      | Unreadable e \<Rightarrow> Inl e
      | Readable s \<Rightarrow> Inr s)"

definition JSON_parse :: "json_text \<Rightarrow> exn + entry list" where
  "JSON_parse s = (case s of NotJSON e \<Rightarrow> Inl e | JSONArray es \<Rightarrow> Inr es)"

definition JSON_stringify :: "entry list \<Rightarrow> json_text" where
  "JSON_stringify es = JSONArray es"

text \<open>\<^verbatim>\<open>writeFileSync\<close> replaces the whole file, or throws and leaves it as it was.\<close>

definition writeFileSync :: "json_text \<Rightarrow> world \<Rightarrow> exn option \<times> world" where
  "writeFileSync s w =
     (case write_error w of
        Some e \<Rightarrow> (Some e, log (WriteFileSync s) w)
      | None \<Rightarrow> (None, log (WriteFileSync s) (w\<lparr>ledger_file := Readable s\<rparr>)))"

subsection \<open>The checkpoint store\<close>

text \<open>
  Modelled from the spec: \<^verbatim>\<open>logger.initialize\<close> of the external checkpoint store,
  whose code is not among the sources; the interface lists \<^verbatim>\<open>initialize()\<close> with no
  result. The interface names no failure of the store, and its five operations are taken
  to succeed.
\<close>

definition initialize :: "world \<Rightarrow> world" where
  "initialize w = log Initialize w"

text \<open>
  Modelled from the spec: \<^verbatim>\<open>logger.checkpointExists\<close>, whose code is not among the
  sources: \<^verbatim>\<open>checkpointExists(tag) \<rightarrow> bool\<close>, whether the store holds a record for
  the tag.
\<close>

definition checkpointExists :: "string \<Rightarrow> world \<Rightarrow> bool \<times> world" where
  "checkpointExists t w = (t \<in> dom (checkpoints w), log (CheckpointExists t) w)"

text \<open>
  Modelled from the spec: \<^verbatim>\<open>logger.saveCheckpoint\<close>, whose code is not among the
  sources: \<^verbatim>\<open>saveCheckpoint({history, authType}, tag) \<rightarrow> void\<close> creates or overwrites
  the record of the tag.
\<close>

definition saveCheckpoint :: "checkpoint \<Rightarrow> string \<Rightarrow> world \<Rightarrow> world" where
  "saveCheckpoint c t w = log (SaveCheckpoint c t) (w\<lparr>checkpoints := (checkpoints w)(t \<mapsto> c)\<rparr>)"

text \<open>
  Modelled from the spec: \<^verbatim>\<open>logger.loadCheckpoint\<close>, whose code is not among the
  sources: \<^verbatim>\<open>loadCheckpoint(tag) \<rightarrow> {history, authType?}\<close> reads the record of the
  tag; a tag with no record gives an empty history (the "not found" of resume).
\<close>

definition loadCheckpoint :: "string \<Rightarrow> world \<Rightarrow> checkpoint \<times> world" where
  "loadCheckpoint t w =
     (case checkpoints w t of
        None \<Rightarrow> (\<lparr>history = [], authType = None\<rparr>, log (LoadCheckpoint t) w)
      | Some c \<Rightarrow> (c, log (LoadCheckpoint t) w))"

text \<open>
  Modelled from the spec: \<^verbatim>\<open>logger.deleteCheckpoint\<close>, whose code is not among the
  sources: \<^verbatim>\<open>deleteCheckpoint(tag) \<rightarrow> bool\<close> removes the record of the tag and tells
  whether there was one.
\<close>

definition deleteCheckpoint :: "string \<Rightarrow> world \<Rightarrow> bool \<times> world" where
  "deleteCheckpoint t w =
     (t \<in> dom (checkpoints w),
      log (DeleteCheckpoint t) (w\<lparr>checkpoints := (checkpoints w)(t := None)\<rparr>))"

subsection \<open>The delete command\<close>

text \<open>
  Lines 400 to 420: the entry is looked up with \<^verbatim>\<open>findIndex\<close>, the test is
  \<^verbatim>\<open>!tagIndex\<close> (true of the index 0 only), and \<^verbatim>\<open>splice(tagIndex, 1)\<close> follows.
  Every error thrown between reading and writing is caught.
\<close>

definition delete_entry :: "string \<Rightarrow> world \<Rightarrow> action_return option \<times> world" where
  "delete_entry t w =
     (case readFileSync w of
        Inl e \<Rightarrow>
          (Some (Message Error (''Reading or writing to '' @ chatGitLogFile @ '' failed, '' @ e)), w)
      | Inr chatGitLogStr \<Rightarrow>
          (case JSON_parse chatGitLogStr of
             Inl e \<Rightarrow>
               (Some (Message Error
                  (''Reading or writing to '' @ chatGitLogFile @ '' failed, '' @ e)), w)
           | Inr chatGitLog \<Rightarrow>
               (let tagIndex = findIndex (\<lambda>entry. tag entry = t) chatGitLog in
                if tagIndex = 0
                then (Some (Message Error (''Tag not associated with git snapshot, '' @ t)), w)
                else
                  (case writeFileSync (JSON_stringify (splice tagIndex 1 chatGitLog)) w of
                     (Some e, w') \<Rightarrow>
                       (Some (Message Error
                          (''Reading or writing to '' @ chatGitLogFile @ '' failed, '' @ e)), w')
                   | (None, w') \<Rightarrow> (None, w')))))"

definition deleteCommand :: "core \<Rightarrow> CommandContext \<Rightarrow> string \<Rightarrow> world \<Rightarrow> (exn + action_return) \<times> world" where
  "deleteCommand cr ctx args w =
     (let t = trim args in
      if t = [] then (Inr (Message Error ''Missing tag. Usage: /chat-git delete <tag>''), w)
      else
        (case delete_entry t w of
           (Some r, w1) \<Rightarrow> (Inr r, w1)
         | (None, w1) \<Rightarrow>
             (case deleteCheckpoint t (initialize w1) of
                (deleted, w2) \<Rightarrow>
                  if deleted
                  then (Inr (Message Info
                          (''Conversation checkpoint '' @ [CHR 0x27] @ decodeTagName cr t @
                           [CHR 0x27] @ '' has been deleted.'')), w2)
                  else (Inr (Message Error
                          (''Error: No checkpoint found with tag '' @ [CHR 0x27] @
                           decodeTagName cr t @ [CHR 0x27] @ ''.'')), w2))))"

subsection \<open>The save command\<close>

text \<open>
  Lines 121 to 137, and again 304 to 320: \<^verbatim>\<open>checkIsRepo\<close>, with one message for the
  answer false and another when it throws. \<open>None\<close>: the command goes on.
\<close>

definition repo_check :: "world \<Rightarrow> action_return option \<times> world" where
  "repo_check w =
     (case checkIsRepo (repo w) of
        Inl e \<Rightarrow>
          (Some (Message Error
             ''Current working directory is not git repo or checkIsRepo failed. Unable to proceed with chat-git.''),
           log CheckIsRepo w)
      | Inr isRepoDefined \<Rightarrow>
          if isRepoDefined then (None, log CheckIsRepo w)
          else
            (Some (Message Error
               ''Current working directory is not git repo. Unable to proceed with chat-git.''),
             log CheckIsRepo w))"

text \<open>
  Line 180 to 183: \<^verbatim>\<open>repo.add('./*').commit(message, {'--no-verify': null})\<close>; a
  rejected \<^verbatim>\<open>add\<close> ends the chain.
\<close>

definition add_commit :: "string \<Rightarrow> world \<Rightarrow> exn option \<times> world" where
  "add_commit t w =
     (case add (repo w) of
        Some e \<Rightarrow> (Some e, log (Add ''./*'') w)
      | None \<Rightarrow>
          (commit (repo w),
           log (Commit (''commit made with chat-git tag '' @ t)) (log (Add ''./*'') w)))"

text \<open>
  Lines 176 to 192, the body of the \<^verbatim>\<open>try\<close>: the status, the commit when the tree
  is not clean, and \<^verbatim>\<open>revparse(['HEAD'])\<close> in both cases.
\<close>

definition save_snapshot :: "string \<Rightarrow> world \<Rightarrow> (exn + string) \<times> world" where
  "save_snapshot t w =
     (case isClean (repo w) of
        Inl e \<Rightarrow> (Inl e, log Status w)
      | Inr clean \<Rightarrow>
          (case (if clean then (None, log Status w) else add_commit t (log Status w)) of
             (Some e, w1) \<Rightarrow> (Inl e, w1)
           | (None, w1) \<Rightarrow> (revparse (repo w1), log Revparse w1)))"

text \<open>
  Lines 209 to 213: \<^verbatim>\<open>chatGitLog.find\<close> with a callback that assigns the new
  \<^verbatim>\<open>commitHash\<close> to the first entry of the tag and stops there. The result is
  whether an entry was found, and the array after the assignment.
\<close>

fun find_assign :: "string \<Rightarrow> string \<Rightarrow> entry list \<Rightarrow> bool \<times> entry list" where
  "find_assign t h [] = (False, [])"
| "find_assign t h (e # es) =
     (if tag e \<noteq> t
      then (case find_assign t h es of (tagReused, es') \<Rightarrow> (tagReused, e # es'))
      else (True, e\<lparr>commitHash := h\<rparr> # es))"

text \<open>Lines 202 to 216, the body of the \<^verbatim>\<open>try\<close>; \<open>Some\<close> is the error thrown.\<close>

definition save_ledger :: "string \<Rightarrow> string \<Rightarrow> world \<Rightarrow> exn option \<times> world" where
  "save_ledger t h w =
     (let chatGitLogEntry = \<lparr>tag = t, commitHash = h\<rparr> in
      if \<not> existsSync w then writeFileSync (JSON_stringify [chatGitLogEntry]) w
      else
        (case readFileSync w of
           Inl e \<Rightarrow> (Some e, w)
         | Inr chatGitLogStr \<Rightarrow>
             (case JSON_parse chatGitLogStr of
                Inl e \<Rightarrow> (Some e, w)
              | Inr chatGitLog \<Rightarrow>
                  (case find_assign t h chatGitLog of
                     (tagReused, chatGitLog') \<Rightarrow>
                       writeFileSync
                         (JSON_stringify
                            (if tagReused then chatGitLog' else chatGitLog' @ [chatGitLogEntry]))
                         w))))"

definition saved_message :: "core \<Rightarrow> string \<Rightarrow> string \<Rightarrow> string" where
  "saved_message cr t h =
     ''Conversation checkpoint saved with tag: '' @ decodeTagName cr t @
     '' and git commit hash '' @ h @ ''.''"

text \<open>Lines 176 to 230: what save does once the history is long enough.\<close>

definition save_history ::
  "core \<Rightarrow> CommandContext \<Rightarrow> string \<Rightarrow> content list \<Rightarrow> world \<Rightarrow> (exn + action_return) \<times> world" where
  "save_history cr ctx t hist w =
     (case save_snapshot t w of
        (Inl e, w1) \<Rightarrow> (Inr (Message Error (''Failed git add or commit, '' @ e)), w1)
      | (Inr h, w1) \<Rightarrow>
          (case save_ledger t h
                  (saveCheckpoint \<lparr>history = hist, authType = currentAuthType ctx\<rparr> t w1) of
             (Some e, w2) \<Rightarrow>
               (Inr (Message Error
                  (''Reading or writing to '' @ chatGitLogFile @ '' failed '' @ e)), w2)
           | (None, w2) \<Rightarrow> (Inr (Message Info (saved_message cr t h)), w2)))"

text \<open>Line 152: \<^verbatim>\<open>context.invocation?.raw || `/chat-git save ${tag}`\<close>.\<close>

definition originalInvocation :: "CommandContext \<Rightarrow> string \<Rightarrow> string" where
  "originalInvocation ctx t =
     (case invocation_raw ctx of
        None \<Rightarrow> ''/chat-git save '' @ t
      | Some raw \<Rightarrow> if raw = [] then ''/chat-git save '' @ t else raw)"

definition saveCommand ::
  "core \<Rightarrow> CommandContext \<Rightarrow> string \<Rightarrow> world \<Rightarrow> (exn + action_return) \<times> world" where
  "saveCommand cr ctx args w =
     (let t = trim args in
      if t = [] then (Inr (Message Error ''Missing tag. Usage: /chat save <tag>''), w)
      else
        (case repo_check (initialize w) of
           (Some r, w1) \<Rightarrow> (Inr r, w1)
         | (None, w1) \<Rightarrow>
             (case (if overwriteConfirmed ctx then (False, w1) else checkpointExists t w1) of
                (exists, w2) \<Rightarrow>
                  if exists then (Inr (ConfirmAction t (originalInvocation ctx t)), w2)
                  else
                    (case chat ctx of
                       None \<Rightarrow>
                         (Inr (Message Error ''No chat client available to save conversation.''),
                          w2)
                     | Some hist \<Rightarrow>
                         if length hist \<le> INITIAL_HISTORY_LENGTH cr
                         then (Inr (Message Info ''No conversation found to save.''), w2)
                         else save_history cr ctx t hist w2))))"

subsection \<open>The resume command\<close>

text \<open>
  Lines 264 to 288: the commit hash of the first entry of the tag; \<open>Inl\<close> is the message
  returned when there is none, or when reading or parsing throws.
\<close>

definition resume_lookup :: "core \<Rightarrow> string \<Rightarrow> world \<Rightarrow> action_return + string" where
  "resume_lookup cr t w =
     (case readFileSync w of
        Inl err \<Rightarrow>
          Inl (Message Error
                 (''Error reading from chat-git log file '' @ chatGitLogFile @ '', '' @ err))
      | Inr chatGitLogStr \<Rightarrow>
          (case JSON_parse chatGitLogStr of
             Inl err \<Rightarrow>
               Inl (Message Error
                      (''Error reading from chat-git log file '' @ chatGitLogFile @ '', '' @ err))
           | Inr chatGitLog \<Rightarrow>
               (case find (\<lambda>entry. tag entry = t) chatGitLog of
                  None \<Rightarrow>
                    Inl (Message Error
                           (''No git commit associated with tag: '' @ decodeTagName cr t @ ''.''))
                | Some tagFound \<Rightarrow> Inr (commitHash tagFound))))"

text \<open>
  Lines 290 to 295: both authentication types are set (a string that is not empty) and
  they differ.
\<close>

definition auth_mismatch :: "string option \<Rightarrow> string option \<Rightarrow> bool" where
  "auth_mismatch saved current =
     (case saved of
        None \<Rightarrow> False
      | Some a \<Rightarrow>
          (case current of
             None \<Rightarrow> False
           | Some b \<Rightarrow> a \<noteq> [] \<and> b \<noteq> [] \<and> a \<noteq> b))"

definition auth_message :: "string option \<Rightarrow> string option \<Rightarrow> string" where
  "auth_message saved current =
     ''Cannot resume chat. It was saved with a different authentication method ('' @
     (case saved of None \<Rightarrow> [] | Some a \<Rightarrow> a) @ '') than the current one ('' @
     (case current of None \<Rightarrow> [] | Some b \<Rightarrow> b) @ '').''"

text \<open>
  Lines 303 to 345: the repository check, the status, and the checkout of the hash.
  \<open>None\<close>: the checkout was made.
\<close>

definition resume_checkout :: "string \<Rightarrow> world \<Rightarrow> action_return option \<times> world" where
  "resume_checkout h w =
     (case repo_check w of
        (Some r, w1) \<Rightarrow> (Some r, w1)
      | (None, w1) \<Rightarrow>
          (case isClean (repo w1) of
             Inl e \<Rightarrow>
               (Some (Message Error (''Failed checking git repo status, '' @ e)), log Status w1)
           | Inr clean \<Rightarrow>
               if \<not> clean
               then (Some (Message Error ''Git repo is not clean, unable to checkout.''),
                     log Status w1)
               else
                 (case checkout (repo w1) h of
                    Some e \<Rightarrow>
                      (Some (Message Error (''Failed git checkout '' @ h @ '', '' @ e)),
                       log (Checkout h) (log Status w1))
                  | None \<Rightarrow> (None, log (Checkout h) (log Status w1)))))"

text \<open>
  Lines 347 to 350. \<^verbatim>\<open>rolemap\<close> is an object literal with the two keys \<^verbatim>\<open>user\<close> and
  \<^verbatim>\<open>model\<close>. Read at any other key, it gives the member that \<^verbatim>\<open>Object.prototype\<close>
  has under this name (a function, or the prototype itself for \<^verbatim>\<open>__proto__\<close>), and
  \<^verbatim>\<open>undefined\<close> (\<open>None\<close>) when there is none.
\<close>

definition Object_prototype :: "string list" where
  "Object_prototype =
     [''constructor'', ''__defineGetter__'', ''__defineSetter__'', ''hasOwnProperty'',
      ''__lookupGetter__'', ''__lookupSetter__'', ''isPrototypeOf'', ''propertyIsEnumerable'',
      ''toString'', ''valueOf'', ''__proto__'', ''toLocaleString'']"

definition rolemap :: "string \<rightharpoonup> type_value" where
  "rolemap key =
     (if key = ''user'' then Some (Enum USER)
      else if key = ''model'' then Some (Enum GEMINI)
      else if key \<in> set Object_prototype then Some (Member key)
      else None)"

text \<open>
  \<^verbatim>\<open>item.parts?.filter((m) => !!m.text).map((m) => m.text).join('') || ''\<close>
\<close>

definition item_parts_text :: "content \<Rightarrow> string" where
  "item_parts_text item =
     (case parts item of
        None \<Rightarrow> []
      | Some ps \<Rightarrow>
          concat
            (map (\<lambda>m. case part_text m of None \<Rightarrow> [] | Some s \<Rightarrow> s)
               (filter (\<lambda>m. case part_text m of None \<Rightarrow> False | Some s \<Rightarrow> s \<noteq> []) ps)))"

text \<open>
  \<^verbatim>\<open>(item.role && rolemap[item.role]) || MessageType.GEMINI\<close>: every value that
  \<^verbatim>\<open>rolemap\<close> gives is truthy, so the default is taken for an absent or empty role and
  for \<^verbatim>\<open>undefined\<close> only.
\<close>

definition item_role_type :: "content \<Rightarrow> type_value" where
  "item_role_type item =
     (case role item of
        None \<Rightarrow> Enum GEMINI
      | Some r \<Rightarrow>
          if r = [] then Enum GEMINI
          else (case rolemap r of None \<Rightarrow> Enum GEMINI | Some ty \<Rightarrow> ty))"

text \<open>The loop of lines 354 to 368: \<open>uiHistory\<close> is the array that \<^verbatim>\<open>push\<close> extends.\<close>

fun uiHistory_loop :: "HistoryItemWithoutId list \<Rightarrow> content list \<Rightarrow> HistoryItemWithoutId list" where
  "uiHistory_loop uiHistory [] = uiHistory"
| "uiHistory_loop uiHistory (item # items) =
     (let text = item_parts_text item in
      if text = [] then uiHistory_loop uiHistory items
      else uiHistory_loop
             (uiHistory @ [\<lparr>item_type = item_role_type item, item_text = text\<rparr>]) items)"

definition resumeCommand ::
  "core \<Rightarrow> CommandContext \<Rightarrow> string \<Rightarrow> world \<Rightarrow> (exn + action_return) \<times> world" where
  "resumeCommand cr ctx args w =
     (let t = trim args in
      if t = [] then (Inr (Message Error ''Missing tag. Usage: /chat-git resume <tag>''), w)
      else
        (case loadCheckpoint t (initialize w) of
           (checkpoint, w1) \<Rightarrow>
             (let conversation = history checkpoint in
              if length conversation = 0
              then (Inr (Message Info
                      (''No saved checkpoint found with tag: '' @ decodeTagName cr t @ ''.'')),
                    w1)
              else
                (case resume_lookup cr t w1 of
                   Inl r \<Rightarrow> (Inr r, w1)
                 | Inr h \<Rightarrow>
                     if auth_mismatch (authType checkpoint) (currentAuthType ctx)
                     then (Inr (Message Error
                             (auth_message (authType checkpoint) (currentAuthType ctx))), w1)
                     else
                       (case resume_checkout h w1 of
                          (Some r, w2) \<Rightarrow> (Inr r, w2)
                        | (None, w2) \<Rightarrow>
                            (Inr (LoadHistory
                                    (uiHistory_loop []
                                       (drop (INITIAL_HISTORY_LENGTH cr) conversation))
                                    conversation),
                             w2))))))"

subsection \<open>Listing the saved tags\<close>

text \<open>
  \<^verbatim>\<open>path.join\<close> of a directory and a file name. \<^verbatim>\<open>fsPromises.stat\<close> followed by
  \<^verbatim>\<open>mtime.toISOString()\<close> is the field \<open>stat\<close> of the world: the time stamp of the
  path, or the error thrown.
\<close>

definition path_join :: "string \<Rightarrow> string \<Rightarrow> string" where
  "path_join dir f = dir @ ''/'' @ f"

text \<open>The loop of lines 63 to 70; the first error thrown ends it.\<close>

fun chatDetails_loop ::
  "core \<Rightarrow> world \<Rightarrow> string \<Rightarrow> ChatDetail list \<Rightarrow> entry list \<Rightarrow> exn + ChatDetail list" where
  "chatDetails_loop cr w geminiDir chatDetails [] = Inr chatDetails"
| "chatDetails_loop cr w geminiDir chatDetails (entry # rest) =
     (case stat w (path_join geminiDir (''checkpoint-'' @ tag entry @ ''.json'')) of
        Inl e \<Rightarrow> Inl e
      | Inr m \<Rightarrow>
          chatDetails_loop cr w geminiDir
            (chatDetails @ [\<lparr>name = decodeTagName cr (tag entry), mtime = m\<rparr>]) rest)"

text \<open>
  \<^verbatim>\<open>localeCompare\<close> on time stamps in ISO format, which have their digits at the same
  places: the order of the strings, character by character.
\<close>

definition localeCompare :: "string \<Rightarrow> string \<Rightarrow> int" where
  "localeCompare a b = (if a < b then -1 else if b < a then 1 else 0)"

text \<open>\<^verbatim>\<open>Array.prototype.sort\<close> with a comparison function: a stable sort.\<close>

fun insort_cmp :: "('a \<Rightarrow> 'a \<Rightarrow> int) \<Rightarrow> 'a \<Rightarrow> 'a list \<Rightarrow> 'a list" where
  "insort_cmp cmp x [] = [x]"
| "insort_cmp cmp x (y # ys) = (if cmp x y \<le> 0 then x # y # ys else y # insort_cmp cmp x ys)"

definition sort_cmp :: "('a \<Rightarrow> 'a \<Rightarrow> int) \<Rightarrow> 'a list \<Rightarrow> 'a list" where
  "sort_cmp cmp xs = foldr (insort_cmp cmp) xs []"

text \<open>
  Lines 36 to 83. \<^verbatim>\<open>JSON.parse\<close> on line 50 stands between the two \<^verbatim>\<open>try\<close> blocks:
  what it throws leaves the function.
\<close>

definition getSavedChatGitTags ::
  "core \<Rightarrow> CommandContext \<Rightarrow> bool \<Rightarrow> world \<Rightarrow> exn + ChatDetail list" where
  "getSavedChatGitTags cr ctx mtSortDesc w =
     (if \<not> existsSync w then Inr []
      else
        (case readFileSync w of
           Inl err \<Rightarrow> Inr []
         | Inr chatGitLogStr \<Rightarrow>
             (case JSON_parse chatGitLogStr of
                Inl e \<Rightarrow> Inl e
              | Inr chatGitLog \<Rightarrow>
                  (case projectTempDir ctx of
                     None \<Rightarrow> Inr []
                   | Some geminiDir \<Rightarrow>
                       if geminiDir = [] then Inr []
                       else
                         (case chatDetails_loop cr w geminiDir [] chatGitLog of
                            Inl err \<Rightarrow> Inr []
                          | Inr chatDetails \<Rightarrow>
                              Inr (sort_cmp
                                     (\<lambda>a b. if mtSortDesc
                                            then localeCompare (mtime b) (mtime a)
                                            else localeCompare (mtime a) (mtime b))
                                     chatDetails))))))"

text \<open>Lines 90 to 99: the list is handed to \<^verbatim>\<open>context.ui.addItem\<close> as a \<^verbatim>\<open>CHAT_LIST\<close> item.\<close>

definition listCommand :: "core \<Rightarrow> CommandContext \<Rightarrow> world \<Rightarrow> (exn + unit) \<times> world" where
  "listCommand cr ctx w =
     (case getSavedChatGitTags cr ctx False w of
        Inl e \<Rightarrow> (Inl e, w)
      | Inr chatDetails \<Rightarrow> (Inr (), log (AddItem chatDetails) w))"

definition startsWith :: "string \<Rightarrow> string \<Rightarrow> bool" where
  "startsWith s p = (take (length p) s = p)"

text \<open>Lines 375 to 380 and 440 to 445: the completion of resume and of delete.\<close>

definition completion :: "core \<Rightarrow> CommandContext \<Rightarrow> string \<Rightarrow> world \<Rightarrow> exn + string list" where
  "completion cr ctx partialArg w =
     (case getSavedChatGitTags cr ctx True w of
        Inl e \<Rightarrow> Inl e
      | Inr chatDetails \<Rightarrow> Inr (filter (\<lambda>n. startsWith n partialArg) (map name chatDetails)))"

subsection \<open>Observations on a run\<close>

text \<open>The calls that a run from \<open>w\<close> to \<open>w'\<close> has added.\<close>

definition new_calls :: "world \<Rightarrow> world \<Rightarrow> call list" where
  "new_calls w w' = drop (length (calls w)) (calls w')"

fun is_git_call :: "call \<Rightarrow> bool" where
  "is_git_call CheckIsRepo = True"
| "is_git_call Status = True"
| "is_git_call (Add p) = True"
| "is_git_call (Commit m) = True"
| "is_git_call Revparse = True"
| "is_git_call (Checkout h) = True"
| "is_git_call c = False"

text \<open>The calls that change a store: the repository, the checkpoint store or the ledger.\<close>

fun is_mutation :: "call \<Rightarrow> bool" where
  "is_mutation (Add p) = True"
| "is_mutation (Commit m) = True"
| "is_mutation (Checkout h) = True"
| "is_mutation (SaveCheckpoint c t) = True"
| "is_mutation (DeleteCheckpoint t) = True"
| "is_mutation (WriteFileSync s) = True"
| "is_mutation c = False"

fun is_stage_or_commit :: "call \<Rightarrow> bool" where
  "is_stage_or_commit (Add p) = True"
| "is_stage_or_commit (Commit m) = True"
| "is_stage_or_commit c = False"

subsection \<open>The ledger as a sequence of entries\<close>

text \<open>
  The ledger that save reads: an absent file is the empty ledger; \<open>None\<close> when reading or
  parsing the file throws.
\<close>

definition ledger_entries :: "file_state \<Rightarrow> entry list option" where
  "ledger_entries f =
     (case f of
        Absent \<Rightarrow> Some []
      | Unreadable e \<Rightarrow> None
      | Readable s \<Rightarrow> (case s of NotJSON e \<Rightarrow> None | JSONArray es \<Rightarrow> Some es))"

text \<open>What lines 207 to 215 make of the array that was read.\<close>

definition code_upsert :: "string \<Rightarrow> string \<Rightarrow> entry list \<Rightarrow> entry list" where
  "code_upsert t h L =
     (case find_assign t h L of
        (tagReused, L') \<Rightarrow> if tagReused then L' else L' @ [\<lparr>tag = t, commitHash = h\<rparr>])"

text \<open>
  The specification's \<^verbatim>\<open>upsert(tag, commitHash)\<close>, in its words: replace the entry whose
  tag matches, updating only \<^verbatim>\<open>commitHash\<close>, or append a new entry if none matches.
\<close>

definition spec_upsert :: "string \<Rightarrow> string \<Rightarrow> entry list \<Rightarrow> entry list" where
  "spec_upsert t h L =
     (if t \<in> tag ` set L
      then map (\<lambda>e. if tag e = t then e\<lparr>commitHash := h\<rparr> else e) L
      else L @ [\<lparr>tag = t, commitHash = h\<rparr>])"

text \<open>The entry that resume finds for a tag: the first one of that tag.\<close>

definition ledger_lookup :: "string \<Rightarrow> world \<Rightarrow> entry option" where
  "ledger_lookup t w =
     (case ledger_entries (ledger_file w) of
        None \<Rightarrow> None
      | Some L \<Rightarrow> find (\<lambda>entry. tag entry = t) L)"

subsection \<open>How far a command gets\<close>

text \<open>
  Save reaches the history (line 158) when the tag is not empty, the repository check
  has passed and there is no overwrite to confirm. The state is then the initial one,
  with the calls of these checks recorded.
\<close>

definition save_reaches_history :: "CommandContext \<Rightarrow> string \<Rightarrow> world \<Rightarrow> bool" where
  "save_reaches_history ctx t w =
     (t \<noteq> [] \<and> checkIsRepo (repo w) = Inr True \<and>
      (if overwriteConfirmed ctx then True else t \<notin> dom (checkpoints w)))"

definition save_checked :: "CommandContext \<Rightarrow> string \<Rightarrow> world \<Rightarrow> world" where
  "save_checked ctx t w =
     (if overwriteConfirmed ctx then log CheckIsRepo (log Initialize w)
      else log (CheckpointExists t) (log CheckIsRepo (log Initialize w)))"

text \<open>
  Resume reaches the status of the working tree (line 322) when the tag is not empty,
  the stored history is not empty, the ledger has an entry of the tag, the authentication
  types do not conflict and the repository check has passed.
\<close>

definition resume_reaches_status :: "CommandContext \<Rightarrow> string \<Rightarrow> world \<Rightarrow> bool" where
  "resume_reaches_status ctx t w =
     (t \<noteq> [] \<and>
      (case checkpoints w t of
         None \<Rightarrow> False
       | Some cp \<Rightarrow> history cp \<noteq> [] \<and> \<not> auth_mismatch (authType cp) (currentAuthType ctx)) \<and>
      ledger_lookup t w \<noteq> None \<and> checkIsRepo (repo w) = Inr True)"

subsection \<open>The display history, in the specification's words\<close>

text \<open>
  Drop the hidden initial-context prefix, map each turn's role to a display role (user
  or model, model for an unknown or absent role), concatenate each turn's text
  fragments, and drop the turns whose concatenated text is empty.
\<close>

definition spec_role :: "string option \<Rightarrow> type_value" where
  "spec_role r = (if r = Some ''user'' then Enum USER else Enum GEMINI)"

definition spec_text :: "content \<Rightarrow> string" where
  "spec_text t =
     concat (map (\<lambda>p. case part_text p of None \<Rightarrow> [] | Some s \<Rightarrow> s)
               (case parts t of None \<Rightarrow> [] | Some ps \<Rightarrow> ps))"

definition spec_display :: "nat \<Rightarrow> content list \<Rightarrow> HistoryItemWithoutId list" where
  "spec_display n H =
     filter (\<lambda>i. item_text i \<noteq> [])
       (map (\<lambda>t. \<lparr>item_type = spec_role (role t), item_text = spec_text t\<rparr>) (drop n H))"

text \<open>A turn whose role, if it has one, is not the name of a member of \<^verbatim>\<open>Object.prototype\<close>.\<close>

definition plain_role :: "content \<Rightarrow> bool" where
  "plain_role t = (case role t of None \<Rightarrow> True | Some r \<Rightarrow> r \<notin> set Object_prototype)"

subsection \<open>Example states\<close>

text \<open>
  The identity for \<^verbatim>\<open>decodeTagName\<close> (right for a tag without escapes) and 1 for
  \<^verbatim>\<open>INITIAL_HISTORY_LENGTH\<close>: the tests of the repository expect a history of one turn
  to be refused by save and a history of two turns to be saved.
\<close>

definition core1 :: core where
  "core1 = \<lparr>decodeTagName = (\<lambda>s. s), INITIAL_HISTORY_LENGTH = 1\<rparr>"

text \<open>A repository with a clean tree, where every operation succeeds.\<close>

definition git_clean :: SimpleGit where
  "git_clean =
     \<lparr>checkIsRepo = Inr True, isClean = Inr True, add = None, commit = None,
      revparse = Inr ''test-commit-hash'', checkout = (\<lambda>h. None)\<rparr>"

definition mk_world :: "file_state \<Rightarrow> (string \<rightharpoonup> checkpoint) \<Rightarrow> SimpleGit \<Rightarrow> world" where
  "mk_world f cps g =
     \<lparr>ledger_file = f, write_error = None, stat = (\<lambda>p. Inl ''Error: ENOENT''),
      checkpoints = cps, repo = g, calls = []\<rparr>"

definition ctx0 :: CommandContext where
  "ctx0 =
     \<lparr>overwriteConfirmed = False, invocation_raw = None, chat = None,
      currentAuthType = Some ''oauth-personal'', projectTempDir = Some ''/tmp/mockhash''\<rparr>"

definition turn :: "string \<Rightarrow> string \<Rightarrow> content" where
  "turn r s = \<lparr>role = Some r, parts = Some [\<lparr>part_text = Some s\<rparr>]\<rparr>"

definition two_turns :: checkpoint where
  "two_turns =
     \<lparr>history = [turn ''user'' ''context'', turn ''user'' ''hello''], authType = None\<rparr>"

text \<open>
  The ledger of the test "should return an error if tag is not associated with git
  snapshot", with a checkpoint stored for \<^verbatim>\<open>my-tag\<close>.
\<close>

definition delete_world1 :: world where
  "delete_world1 =
     mk_world (Readable (JSONArray [\<lparr>tag = ''other-tag'', commitHash = ''abc''\<rparr>]))
       [''my-tag'' \<mapsto> two_turns] git_clean"

text \<open>The ledger of the specification's example, with a checkpoint stored for each tag.\<close>

definition delete_world2 :: world where
  "delete_world2 =
     mk_world
       (Readable (JSONArray [\<lparr>tag = ''a'', commitHash = ''c1''\<rparr>, \<lparr>tag = ''b'', commitHash = ''c2''\<rparr>]))
       [''a'' \<mapsto> two_turns, ''b'' \<mapsto> two_turns] git_clean"

text \<open>
  A chat of two turns, and the ledger of the test "should overwrite chatGitLogEntry if
  tag reused"; no checkpoint is stored.
\<close>

definition save_ctx :: CommandContext where
  "save_ctx = ctx0\<lparr>chat := Some [turn ''user'' ''context'', turn ''user'' ''hello'']\<rparr>"

text \<open>The same chat, invoked with a raw command line that differs from the default one.\<close>

definition asked_ctx :: CommandContext where
  "asked_ctx = save_ctx\<lparr>invocation_raw := Some ''/chat-git  save my-tag''\<rparr>"

definition save_world :: world where
  "save_world =
     mk_world (Readable (JSONArray [\<lparr>tag = ''my-tag'', commitHash = ''old-commit-hash''\<rparr>]))
       Map.empty git_clean"

text \<open>A checkpoint is stored for \<^verbatim>\<open>my-tag\<close>: in a repository, and outside of one.\<close>

definition exists_world :: world where
  "exists_world = mk_world Absent [''my-tag'' \<mapsto> two_turns] git_clean"

definition norepo_world :: world where
  "norepo_world =
     mk_world Absent [''my-tag'' \<mapsto> two_turns] (git_clean\<lparr>checkIsRepo := Inr False\<rparr>)"

text \<open>
  The ledger of the tests of resume, with a checkpoint of the given history stored for
  \<^verbatim>\<open>good-tag\<close>, and a repository whose tree is not clean.
\<close>

definition good_entry :: entry where
  "good_entry = \<lparr>tag = ''good-tag'', commitHash = ''1234567890abcdef''\<rparr>"

definition resume_world :: "content list \<Rightarrow> SimpleGit \<Rightarrow> world" where
  "resume_world H g =
     mk_world (Readable (JSONArray [\<lparr>tag = ''good-tag'', commitHash = ''1234567890abcdef''\<rparr>]))
       [''good-tag'' \<mapsto> \<lparr>history = H, authType = Some ''oauth-personal''\<rparr>] g"

definition dirty :: SimpleGit where
  "dirty = git_clean\<lparr>isClean := Inr False\<rparr>"

definition three_turns :: "content list" where
  "three_turns =
     [turn ''user'' ''context'', turn ''user'' ''hello gemini'', turn ''model'' ''hello world'']"

text \<open>A chat with a turn whose role is the name of a member of \<^verbatim>\<open>Object.prototype\<close>.\<close>

definition member_turns :: "content list" where
  "member_turns = [turn ''user'' ''context'', turn ''constructor'' ''hello'']"

definition member_ctx :: CommandContext where
  "member_ctx = ctx0\<lparr>overwriteConfirmed := True, chat := Some member_turns\<rparr>"

text \<open>The replay of a save after the overwrite was confirmed, and a chat of one turn.\<close>

definition round_trip_ctx :: CommandContext where
  "round_trip_ctx = ctx0\<lparr>overwriteConfirmed := True, chat := Some three_turns\<rparr>"

definition short_ctx :: CommandContext where
  "short_ctx = ctx0\<lparr>overwriteConfirmed := True, chat := Some [turn ''user'' ''context'']\<rparr>"

text \<open>A ledger file that \<^verbatim>\<open>JSON.parse\<close> rejects.\<close>

definition malformed_world :: world where
  "malformed_world =
     mk_world (Readable (NotJSON ''SyntaxError: Unexpected end of JSON input'')) Map.empty
       git_clean"

section \<open>Properties\<close>

subsection \<open>Basic facts\<close>

lemma log_sel [simp]:
  "calls (log c w) = calls w @ [c]"
  "ledger_file (log c w) = ledger_file w"
  "write_error (log c w) = write_error w"
  "stat (log c w) = stat w"
  "checkpoints (log c w) = checkpoints w"
  "repo (log c w) = repo w"
  by (simp_all add: log_def)

lemmas fs_defs =
  existsSync_def readFileSync_def JSON_parse_def JSON_stringify_def writeFileSync_def

lemmas store_defs =
  initialize_def checkpointExists_def saveCheckpoint_def loadCheckpoint_def
  deleteCheckpoint_def

lemmas ex_defs =
  core1_def git_clean_def mk_world_def ctx0_def turn_def two_turns_def

lemmas save_defs =
  saveCommand_def save_history_def save_snapshot_def add_commit_def save_ledger_def
  repo_check_def originalInvocation_def saved_message_def chatGitLogFile_def

lemmas resume_defs =
  resumeCommand_def resume_checkout_def repo_check_def resume_lookup_def auth_message_def
  chatGitLogFile_def

lemmas resume_ex_defs = ex_defs resume_world_def dirty_def

lemma new_calls_extend: "calls w' = calls w @ cs \<Longrightarrow> calls w' = calls w @ new_calls w w'"
  by (simp add: new_calls_def)

lemma trim_examples [simp]:
  "trim ''my-tag'' = ''my-tag''" "trim ''a'' = ''a''" "trim ''b'' = ''b''"
  by (simp_all add: trim_def isWhiteSpace_def)

lemma trim_good_tag [simp]: "trim ''good-tag'' = ''good-tag''"
  by (simp add: trim_def isWhiteSpace_def)

subsection \<open>Delete\<close>

text \<open>
  C1. Deleting a tag that has no entry in the ledger should return the error "tag not
  associated with a snapshot", leave the ledger file as it is and not call
  \<^verbatim>\<open>deleteCheckpoint\<close>. The code does otherwise: \<^verbatim>\<open>findIndex\<close> answers -1, which
  \<^verbatim>\<open>!tagIndex\<close> does not catch, and \<^verbatim>\<open>splice(-1, 1)\<close> removes the last entry. With the
  ledger holding \<^verbatim>\<open>other-tag\<close> only, deleting \<^verbatim>\<open>my-tag\<close> writes an empty ledger, calls
  \<^verbatim>\<open>deleteCheckpoint('my-tag')\<close> and reports the checkpoint deleted.
\<close>

theorem delete_unlisted_tag_removes_last_entry:
  "fst (deleteCommand core1 ctx0 ''my-tag'' delete_world1) =
     Inr (Message Info ''Conversation checkpoint 'my-tag' has been deleted.'') \<and>
   ledger_file (snd (deleteCommand core1 ctx0 ''my-tag'' delete_world1)) =
     Readable (JSONArray []) \<and>
   calls (snd (deleteCommand core1 ctx0 ''my-tag'' delete_world1)) =
     [WriteFileSync (JSONArray []), Initialize, DeleteCheckpoint ''my-tag'']"
  by (simp add: Let_def deleteCommand_def delete_entry_def fs_defs store_defs ex_defs
      delete_world1_def findIndex_def splice_def chatGitLogFile_def)

text \<open>
  C2. Deleting a tag that has an entry should remove that entry and call
  \<^verbatim>\<open>deleteCheckpoint\<close> once, also when the entry is the first one. The code does
  otherwise for the first entry: its index 0 makes \<^verbatim>\<open>!tagIndex\<close> true. On the
  specification's example, \<^verbatim>\<open>delete("a")\<close> returns the error "Tag not associated with
  git snapshot", and neither the ledger nor the checkpoint store is touched.
\<close>

theorem delete_first_entry_refused:
  "deleteCommand core1 ctx0 ''a'' delete_world2 =
     (Inr (Message Error ''Tag not associated with git snapshot, a''), delete_world2)"
  by (simp add: Let_def deleteCommand_def delete_entry_def fs_defs store_defs ex_defs
      delete_world2_def findIndex_def splice_def chatGitLogFile_def)

text \<open>
  C10. Delete never invokes the repository: none of the calls it makes is a git
  operation, and of the state only the ledger file, the checkpoint store and the record
  of calls can change.
\<close>

theorem deleteCommand_no_git:
  "filter is_git_call (new_calls w (snd (deleteCommand cr ctx args w))) = [] \<and>
   calls (snd (deleteCommand cr ctx args w)) =
     calls w @ new_calls w (snd (deleteCommand cr ctx args w)) \<and>
   repo (snd (deleteCommand cr ctx args w)) = repo w \<and>
   stat (snd (deleteCommand cr ctx args w)) = stat w \<and>
   write_error (snd (deleteCommand cr ctx args w)) = write_error w"
  by (auto simp add: deleteCommand_def delete_entry_def fs_defs store_defs new_calls_def Let_def
      split: sum.splits option.splits prod.splits file_state.splits json_text.splits)

text \<open>The same on the specification's example, for the tag \<^verbatim>\<open>b\<close>, which delete removes.\<close>

theorem deleteCommand_no_git_witness:
  "new_calls delete_world2 (snd (deleteCommand core1 ctx0 ''b'' delete_world2)) =
     [WriteFileSync (JSONArray [\<lparr>tag = ''a'', commitHash = ''c1''\<rparr>]), Initialize,
      DeleteCheckpoint ''b''] \<and>
   filter is_git_call
     (new_calls delete_world2 (snd (deleteCommand core1 ctx0 ''b'' delete_world2))) = [] \<and>
   repo (snd (deleteCommand core1 ctx0 ''b'' delete_world2)) = repo delete_world2"
proof -
  have "new_calls delete_world2 (snd (deleteCommand core1 ctx0 ''b'' delete_world2)) =
     [WriteFileSync (JSONArray [\<lparr>tag = ''a'', commitHash = ''c1''\<rparr>]), Initialize,
      DeleteCheckpoint ''b'']"
    by (simp add: Let_def deleteCommand_def delete_entry_def fs_defs store_defs ex_defs
        delete_world2_def findIndex_def splice_def new_calls_def)
  with deleteCommand_no_git [where w = delete_world2 and cr = core1 and ctx = ctx0 and args = "''b''"] show ?thesis
    by blast
qed

subsection \<open>The ledger update of save\<close>

lemma find_assign_fst: "fst (find_assign t h L) = (t \<in> tag ` set L)"
  by (induction L) (auto split: prod.splits)

lemma find_assign_tags: "map tag (snd (find_assign t h L)) = map tag L"
  by (induction L) (auto split: prod.splits)

lemma find_assign_absent: "t \<notin> tag ` set L \<Longrightarrow> snd (find_assign t h L) = L"
  by (induction L) (auto split: prod.splits)

lemma find_assign_distinct:
  "distinct (map tag L) \<Longrightarrow>
   snd (find_assign t h L) = map (\<lambda>e. if tag e = t then e\<lparr>commitHash := h\<rparr> else e) L"
proof (induction L)
  case Nil
  then show ?case by simp
next
  case (Cons e es)
  show ?case
  proof (cases "tag e = t")
    case True
    with Cons.prems have "t \<notin> tag ` set es" by auto
    then have "map (\<lambda>e. if tag e = t then e\<lparr>commitHash := h\<rparr> else e) es = es"
      by (induction es) auto
    with True show ?thesis by simp
  next
    case False
    with Cons show ?thesis by (simp add: case_prod_unfold)
  qed
qed

lemma find_assign_find:
  "t \<in> tag ` set L \<Longrightarrow>
   find (\<lambda>e. tag e = t) (snd (find_assign t h L)) = Some \<lparr>tag = t, commitHash = h\<rparr>"
  by (induction L) (auto split: prod.splits)

lemma find_append_None: "find P xs = None \<Longrightarrow> find P (xs @ ys) = find P ys"
  by (induction xs) (auto split: if_splits)

lemma code_upsert_find:
  "find (\<lambda>e. tag e = t) (code_upsert t h L) = Some \<lparr>tag = t, commitHash = h\<rparr>"
proof (cases "t \<in> tag ` set L")
  case True
  then show ?thesis
    using find_assign_find [of t L h] find_assign_fst [of t h L]
    by (simp add: code_upsert_def case_prod_unfold)
next
  case False
  then have "find (\<lambda>e. tag e = t) L = None"
    by (induction L) auto
  with False show ?thesis
    using find_assign_absent [of t L h] find_assign_fst [of t h L]
    by (simp add: code_upsert_def find_append_None case_prod_unfold)
qed

text \<open>On a ledger with one entry per tag at most, the code does what the specification says.\<close>

lemma code_upsert_spec:
  "distinct (map tag L) \<Longrightarrow> code_upsert t h L = spec_upsert t h L"
  using find_assign_fst [of t h L] find_assign_distinct [of L t h] find_assign_absent [of t L h]
  by (simp add: code_upsert_def spec_upsert_def case_prod_unfold)

lemma save_ledger_written:
  assumes "save_ledger t h w = (None, w')"
  shows "\<exists>L. ledger_entries (ledger_file w) = Some L \<and>
             w' = log (WriteFileSync (JSONArray (code_upsert t h L)))
                    (w\<lparr>ledger_file := Readable (JSONArray (code_upsert t h L))\<rparr>)"
  using assms
  by (auto simp add: save_ledger_def fs_defs ledger_entries_def code_upsert_def Let_def
      split: file_state.splits json_text.splits option.splits prod.splits if_splits)

lemma save_ledger_frame:
  assumes "save_ledger t h w = (r, w')"
  shows "checkpoints w' = checkpoints w \<and> repo w' = repo w \<and> write_error w' = write_error w \<and>
         stat w' = stat w \<and>
         (\<exists>cs. calls w' = calls w @ cs \<and> filter is_git_call cs = [])"
  using assms
  by (auto simp add: save_ledger_def fs_defs Let_def
      split: file_state.splits json_text.splits option.splits prod.splits if_splits)

subsection \<open>The stages of save\<close>

lemma saved_message_inj [simp]: "saved_message cr t h' = saved_message cr t h \<longleftrightarrow> h' = h"
  by (simp add: saved_message_def)

lemma saved_message_neq [simp]:
  "''No conversation found to save.'' \<noteq> saved_message cr t h"
  by (simp add: saved_message_def)

lemma mutation_free_no_stage:
  "filter is_mutation cs = [] \<Longrightarrow> filter is_stage_or_commit cs = []"
  by (induction cs) (auto split: if_splits elim: is_stage_or_commit.elims)

lemma save_snapshot_cases:
  assumes "save_snapshot t w = (r, w')"
  shows "ledger_file w' = ledger_file w \<and> checkpoints w' = checkpoints w \<and> repo w' = repo w \<and>
         write_error w' = write_error w \<and> stat w' = stat w \<and>
         (\<exists>cs. calls w' = calls w @ cs \<and>
            (isClean (repo w) = Inr True \<longrightarrow> filter is_stage_or_commit cs = []) \<and>
            (\<forall>h. r = Inr h \<longrightarrow> revparse (repo w) = Inr h \<and> Revparse \<in> set cs))"
  using assms
  by (auto simp add: save_snapshot_def add_commit_def split: sum.splits option.splits if_splits prod.splits)

lemma save_history_result:
  assumes "save_history cr ctx t hist w = (res, w')"
  shows "repo w' = repo w \<and> write_error w' = write_error w \<and> stat w' = stat w \<and>
         (\<exists>cs. calls w' = calls w @ cs \<and>
            (isClean (repo w) = Inr True \<longrightarrow> filter is_stage_or_commit cs = []) \<and>
            (\<forall>h. res = Inr (Message Info (saved_message cr t h)) \<longrightarrow>
               revparse (repo w) = Inr h \<and> Revparse \<in> set cs \<and>
               checkpoints w' =
                 (checkpoints w)(t \<mapsto> \<lparr>history = hist, authType = currentAuthType ctx\<rparr>) \<and>
               (\<exists>L. ledger_entries (ledger_file w) = Some L \<and>
                    ledger_file w' = Readable (JSONArray (code_upsert t h L)))))"
proof -
  obtain r1 w1 where snap: "save_snapshot t w = (r1, w1)"
    by (cases "save_snapshot t w")
  from save_snapshot_cases [OF snap] obtain cs1 where
    w1: "ledger_file w1 = ledger_file w" "checkpoints w1 = checkpoints w" "repo w1 = repo w"
      "write_error w1 = write_error w" "stat w1 = stat w" "calls w1 = calls w @ cs1"
    and clean1: "isClean (repo w) = Inr True \<longrightarrow> filter is_stage_or_commit cs1 = []"
    and head1: "\<forall>h. r1 = Inr h \<longrightarrow> revparse (repo w) = Inr h \<and> Revparse \<in> set cs1"
    by blast
  show ?thesis
  proof (cases r1)
    case (Inl e)
    with snap assms have "res = Inr (Message Error (''Failed git add or commit, '' @ e))" "w' = w1"
      by (simp_all add: save_history_def)
    with w1 clean1 show ?thesis by auto
  next
    case (Inr h1)
    define cp where "cp = \<lparr>history = hist, authType = currentAuthType ctx\<rparr>"
    obtain r2 w2 where led: "save_ledger t h1 (saveCheckpoint cp t w1) = (r2, w2)"
      by (cases "save_ledger t h1 (saveCheckpoint cp t w1)")
    from save_ledger_frame [OF led] obtain cs2 where
      w2: "checkpoints w2 = (checkpoints w)(t \<mapsto> cp)" "repo w2 = repo w"
        "write_error w2 = write_error w" "stat w2 = stat w"
        "calls w2 = calls w @ cs1 @ [SaveCheckpoint cp t] @ cs2"
      and git2: "filter is_git_call cs2 = []"
      using w1 by (auto simp add: saveCheckpoint_def)
    have sc2: "filter is_stage_or_commit cs2 = []"
      using git2 by (induction cs2) (auto split: if_splits elim: is_stage_or_commit.elims)
    show ?thesis
    proof (cases r2)
      case (Some e)
      with Inr snap led assms have "res = Inr (Message Error
          (''Reading or writing to '' @ chatGitLogFile @ '' failed '' @ e))" "w' = w2"
        by (simp_all add: save_history_def cp_def)
      with w2 clean1 sc2 show ?thesis by auto
    next
      case None
      with Inr snap led assms have res: "res = Inr (Message Info (saved_message cr t h1))" "w' = w2"
        by (simp_all add: save_history_def cp_def)
      from save_ledger_written [OF led [unfolded None]] obtain L where
        L: "ledger_entries (ledger_file w) = Some L"
          "ledger_file w2 = Readable (JSONArray (code_upsert t h1 L))"
        using w1 by (auto simp add: saveCheckpoint_def)
      from head1 Inr have "revparse (repo w) = Inr h1" "Revparse \<in> set cs1" by auto
      with res w2 clean1 sc2 L show ?thesis by (auto simp add: cp_def)
    qed
  qed
qed

lemma save_history_clean:
  assumes "isClean (repo w) = Inr True"
  shows "(\<exists>cs. calls (snd (save_history cr ctx t hist w)) = calls w @ cs \<and> Revparse \<in> set cs) \<and>
         (revparse (repo w) = Inr h \<and> ledger_entries (ledger_file w) \<noteq> None \<and>
          write_error w = None \<longrightarrow>
            fst (save_history cr ctx t hist w) = Inr (Message Info (saved_message cr t h)))"
  using assms
  by (auto simp add: save_history_def save_snapshot_def save_ledger_def fs_defs
      saveCheckpoint_def ledger_entries_def Let_def
      split: sum.splits option.splits prod.splits file_state.splits json_text.splits)

lemma save_checked_sel [simp]:
  "ledger_file (save_checked ctx t w) = ledger_file w"
  "write_error (save_checked ctx t w) = write_error w"
  "stat (save_checked ctx t w) = stat w"
  "checkpoints (save_checked ctx t w) = checkpoints w"
  "repo (save_checked ctx t w) = repo w"
  by (simp_all add: save_checked_def)

lemma save_checked_calls:
  "calls (save_checked ctx t w) =
     calls w @ (if overwriteConfirmed ctx then [Initialize, CheckIsRepo]
                else [Initialize, CheckIsRepo, CheckpointExists t])"
  by (simp add: save_checked_def)

lemma saveCommand_late:
  assumes "save_reaches_history ctx (trim args) w" "chat ctx = Some hist"
    "INITIAL_HISTORY_LENGTH cr < length hist"
  shows "saveCommand cr ctx args w =
           save_history cr ctx (trim args) hist (save_checked ctx (trim args) w)"
  using assms
  by (auto simp add: saveCommand_def save_reaches_history_def save_checked_def repo_check_def
      store_defs Let_def split: if_splits)

lemma saveCommand_early:
  assumes "\<not> (save_reaches_history ctx (trim args) w \<and>
              (\<exists>hist. chat ctx = Some hist \<and> INITIAL_HISTORY_LENGTH cr < length hist))"
  shows "ledger_file (snd (saveCommand cr ctx args w)) = ledger_file w \<and>
         checkpoints (snd (saveCommand cr ctx args w)) = checkpoints w \<and>
         repo (snd (saveCommand cr ctx args w)) = repo w \<and>
         write_error (snd (saveCommand cr ctx args w)) = write_error w \<and>
         stat (snd (saveCommand cr ctx args w)) = stat w \<and>
         calls (snd (saveCommand cr ctx args w)) =
           calls w @ new_calls w (snd (saveCommand cr ctx args w)) \<and>
         filter is_mutation (new_calls w (snd (saveCommand cr ctx args w))) = [] \<and>
         fst (saveCommand cr ctx args w) \<noteq> Inr (Message Info (saved_message cr (trim args) h))"
  using assms
  by (auto simp add: saveCommand_def save_reaches_history_def repo_check_def new_calls_def
      store_defs Let_def split: if_splits sum.splits option.splits)

lemma saveCommand_calls:
  "calls (snd (saveCommand cr ctx args w)) =
     calls w @ new_calls w (snd (saveCommand cr ctx args w))"
proof (cases "save_reaches_history ctx (trim args) w \<and>
              (\<exists>hist. chat ctx = Some hist \<and> INITIAL_HISTORY_LENGTH cr < length hist)")
  case True
  then obtain hist where eq: "saveCommand cr ctx args w =
      save_history cr ctx (trim args) hist (save_checked ctx (trim args) w)"
    using saveCommand_late by blast
  obtain res w' where run:
    "save_history cr ctx (trim args) hist (save_checked ctx (trim args) w) = (res, w')"
    by (cases "save_history cr ctx (trim args) hist (save_checked ctx (trim args) w)")
  from save_history_result [OF run] obtain cs where
    "calls w' = calls (save_checked ctx (trim args) w) @ cs"
    by auto
  then have "\<exists>cs'. calls w' = calls w @ cs'"
    by (simp add: save_checked_calls)
  with eq run show ?thesis
    by (auto intro: new_calls_extend)
next
  case False
  from saveCommand_early [OF False] show ?thesis
    by simp
qed

lemma saveCommand_clean:
  assumes "isClean (repo w) = Inr True"
    and reach: "save_reaches_history ctx (trim args) w" "chat ctx = Some hist"
      "INITIAL_HISTORY_LENGTH cr < length hist"
  shows "Revparse \<in> set (new_calls w (snd (saveCommand cr ctx args w))) \<and>
        (revparse (repo w) = Inr h \<and> ledger_entries (ledger_file w) \<noteq> None \<and>
         write_error w = None \<longrightarrow>
           fst (saveCommand cr ctx args w) =
             Inr (Message Info (saved_message cr (trim args) h)))"
proof -
  let ?w0 = "save_checked ctx (trim args) w"
  have eq: "saveCommand cr ctx args w = save_history cr ctx (trim args) hist ?w0"
    using reach by (rule saveCommand_late)
  have clean0: "isClean (repo ?w0) = Inr True"
    using assms(1) by simp
  from save_history_clean [OF clean0, of cr ctx "trim args" hist h] obtain cs where
    cs: "calls (snd (saveCommand cr ctx args w)) = calls ?w0 @ cs" "Revparse \<in> set cs"
    and ok: "revparse (repo w) = Inr h \<and> ledger_entries (ledger_file w) \<noteq> None \<and>
       write_error w = None \<longrightarrow>
         fst (saveCommand cr ctx args w) =
           Inr (Message Info (saved_message cr (trim args) h))"
    unfolding eq by auto
  from cs have "Revparse \<in> set (new_calls w (snd (saveCommand cr ctx args w)))"
    by (simp add: new_calls_def save_checked_calls)
  with ok show ?thesis by blast
qed

lemma saveCommand_saved:
  assumes "fst (saveCommand cr ctx args w) = Inr (Message Info (saved_message cr (trim args) h))"
  shows "\<exists>hist. save_reaches_history ctx (trim args) w \<and> chat ctx = Some hist \<and>
           INITIAL_HISTORY_LENGTH cr < length hist \<and>
           saveCommand cr ctx args w =
             save_history cr ctx (trim args) hist (save_checked ctx (trim args) w)"
proof (rule ccontr)
  assume neg: "\<not> ?thesis"
  have "\<not> (save_reaches_history ctx (trim args) w \<and>
              (\<exists>hist. chat ctx = Some hist \<and> INITIAL_HISTORY_LENGTH cr < length hist))"
    using neg saveCommand_late by blast
  from saveCommand_early [OF this, of h] assms show False by simp
qed

lemma saveCommand_saved_stores:
  assumes ok: "fst (saveCommand cr ctx args w) = Inr (Message Info (saved_message cr (trim args) h))"
  shows "\<exists>hist L cs.
           chat ctx = Some hist \<and> INITIAL_HISTORY_LENGTH cr < length hist \<and> trim args \<noteq> [] \<and>
           revparse (repo w) = Inr h \<and>
           checkpoints (snd (saveCommand cr ctx args w)) =
             (checkpoints w)(trim args \<mapsto> \<lparr>history = hist, authType = currentAuthType ctx\<rparr>) \<and>
           ledger_entries (ledger_file w) = Some L \<and>
           ledger_file (snd (saveCommand cr ctx args w)) =
             Readable (JSONArray (code_upsert (trim args) h L)) \<and>
           calls (snd (saveCommand cr ctx args w)) = calls w @ cs \<and> Revparse \<in> set cs"
proof -
  from saveCommand_saved [OF ok] obtain hist where
    reach: "save_reaches_history ctx (trim args) w" and hist: "chat ctx = Some hist"
      "INITIAL_HISTORY_LENGTH cr < length hist"
    and eq: "saveCommand cr ctx args w =
               save_history cr ctx (trim args) hist (save_checked ctx (trim args) w)"
    by blast
  obtain res w' where run: "save_history cr ctx (trim args) hist (save_checked ctx (trim args) w) = (res, w')"
    by (cases "save_history cr ctx (trim args) hist (save_checked ctx (trim args) w)")
  with ok eq have res: "res = Inr (Message Info (saved_message cr (trim args) h))" by simp
  from save_history_result [OF run] res obtain cs L where
    "calls w' = calls (save_checked ctx (trim args) w) @ cs" "Revparse \<in> set cs"
    "revparse (repo w) = Inr h"
    "checkpoints w' =
       (checkpoints w)(trim args \<mapsto> \<lparr>history = hist, authType = currentAuthType ctx\<rparr>)"
    "ledger_entries (ledger_file w) = Some L"
    "ledger_file w' = Readable (JSONArray (code_upsert (trim args) h L))"
    by auto
  with reach hist eq run show ?thesis
    by (auto simp add: save_checked_calls save_reaches_history_def)
qed

text \<open>A save that succeeds ends with the write of the ledger file.\<close>

lemma save_history_last_write:
  assumes "fst (save_history cr ctx t hist w) = Inr (Message Info (saved_message cr t h))"
  shows "\<exists>cs s. calls (snd (save_history cr ctx t hist w)) = calls w @ cs @ [WriteFileSync s] \<and>
           ledger_file (snd (save_history cr ctx t hist w)) = Readable s"
proof -
  obtain r1 w1 where snap: "save_snapshot t w = (r1, w1)"
    by (cases "save_snapshot t w")
  from save_snapshot_cases [OF snap] obtain cs1 where w1: "calls w1 = calls w @ cs1"
    by blast
  show ?thesis
  proof (cases r1)
    case (Inl e)
    with snap assms show ?thesis
      by (simp add: save_history_def)
  next
    case (Inr h1)
    define cp where "cp = \<lparr>history = hist, authType = currentAuthType ctx\<rparr>"
    obtain r2 w2 where led: "save_ledger t h1 (saveCheckpoint cp t w1) = (r2, w2)"
      by (cases "save_ledger t h1 (saveCheckpoint cp t w1)")
    show ?thesis
    proof (cases r2)
      case (Some e)
      with Inr snap led assms show ?thesis
        by (simp add: save_history_def cp_def)
    next
      case None
      from save_ledger_written [OF led [unfolded None]] obtain s where
        "calls w2 = calls w @ (cs1 @ [SaveCheckpoint cp t]) @ [WriteFileSync s]"
        "ledger_file w2 = Readable s"
        using w1 by (auto simp add: saveCheckpoint_def)
      moreover have "snd (save_history cr ctx t hist w) = w2"
        using Inr None snap led by (simp add: save_history_def cp_def)
      ultimately show ?thesis by blast
    qed
  qed
qed

lemma saveCommand_last_write:
  assumes "fst (saveCommand cr ctx args w) = Inr (Message Info (saved_message cr (trim args) h))"
  shows "\<exists>cs s. new_calls w (snd (saveCommand cr ctx args w)) = cs @ [WriteFileSync s] \<and>
           ledger_file (snd (saveCommand cr ctx args w)) = Readable s"
proof -
  from saveCommand_saved [OF assms] obtain hist where
    eq: "saveCommand cr ctx args w =
           save_history cr ctx (trim args) hist (save_checked ctx (trim args) w)"
    by blast
  from save_history_last_write [of cr ctx "trim args" hist "save_checked ctx (trim args) w" h]
    assms
  obtain cs s where
    "calls (snd (saveCommand cr ctx args w)) =
       calls (save_checked ctx (trim args) w) @ cs @ [WriteFileSync s]"
    "ledger_file (snd (saveCommand cr ctx args w)) = Readable s"
    unfolding eq by blast
  then have "new_calls w (snd (saveCommand cr ctx args w)) =
      ((if overwriteConfirmed ctx then [Initialize, CheckIsRepo]
        else [Initialize, CheckIsRepo, CheckpointExists (trim args)]) @ cs) @ [WriteFileSync s]"
    "ledger_file (snd (saveCommand cr ctx args w)) = Readable s"
    by (simp_all add: new_calls_def save_checked_calls)
  then show ?thesis by blast
qed

lemma save_upsert:
  assumes "ledger_entries (ledger_file w) = Some L" and "distinct (map tag L)"
    and "fst (saveCommand cr ctx args w) = Inr (Message Info (saved_message cr (trim args) h))"
  shows "ledger_file (snd (saveCommand cr ctx args w)) =
           Readable (JSONArray (spec_upsert (trim args) h L)) \<and>
         distinct (map tag (spec_upsert (trim args) h L)) \<and>
         length (spec_upsert (trim args) h L) =
           (if trim args \<in> tag ` set L then length L else Suc (length L)) \<and>
         trim args \<in> tag ` set (spec_upsert (trim args) h L)"
proof -
  from saveCommand_saved_stores [OF assms(3)] assms(1)
  have "ledger_file (snd (saveCommand cr ctx args w)) =
          Readable (JSONArray (code_upsert (trim args) h L))"
    by auto
  then have written: "ledger_file (snd (saveCommand cr ctx args w)) =
          Readable (JSONArray (spec_upsert (trim args) h L))"
    using code_upsert_spec [OF assms(2)] by simp
  have tags: "map tag (spec_upsert (trim args) h L) =
      (if trim args \<in> tag ` set L then map tag L else map tag L @ [trim args])"
    by (auto simp add: spec_upsert_def)
  have "distinct (map tag (spec_upsert (trim args) h L))"
    using assms(2) by (auto simp add: tags)
  moreover have "length (spec_upsert (trim args) h L) =
      (if trim args \<in> tag ` set L then length L else Suc (length L))"
    by (simp add: spec_upsert_def)
  moreover have "trim args \<in> set (map tag (spec_upsert (trim args) h L))"
    unfolding tags by auto
  then have "trim args \<in> tag ` set (spec_upsert (trim args) h L)"
    by simp
  ultimately show ?thesis using written by simp
qed

subsection \<open>Save\<close>

text \<open>
  C5. Let the ledger have one entry per tag at most, and let save succeed for the tag
  \<open>T\<close> with the commit hash \<open>h\<close>. Then the ledger written is the old one with the
  entry of \<open>T\<close> replaced in place (only its \<^verbatim>\<open>commitHash\<close> changes) or, when there was
  none, with the one entry \<^verbatim>\<open>{tag: T, commitHash: h}\<close> appended. It has again one entry
  per tag at most, and its length is the old length, or one more when the tag was new. A
  second successful save of the same tag on this ledger replaces in place and leaves the
  length as it is.
\<close>

theorem save_keeps_one_entry_per_tag:
  assumes "ledger_entries (ledger_file w) = Some L" and "distinct (map tag L)"
    and "fst (saveCommand cr ctx args w) = Inr (Message Info (saved_message cr (trim args) h))"
  shows "ledger_file (snd (saveCommand cr ctx args w)) =
           Readable (JSONArray (spec_upsert (trim args) h L)) \<and>
         distinct (map tag (spec_upsert (trim args) h L)) \<and>
         length (spec_upsert (trim args) h L) =
           (if trim args \<in> tag ` set L then length L else Suc (length L)) \<and>
         (\<forall>cr2 ctx2 args2 w2 h2.
            trim args2 = trim args \<and>
            ledger_file w2 = ledger_file (snd (saveCommand cr ctx args w)) \<and>
            fst (saveCommand cr2 ctx2 args2 w2) =
              Inr (Message Info (saved_message cr2 (trim args2) h2)) \<longrightarrow>
            ledger_file (snd (saveCommand cr2 ctx2 args2 w2)) =
              Readable (JSONArray (spec_upsert (trim args) h2 (spec_upsert (trim args) h L))) \<and>
            length (spec_upsert (trim args) h2 (spec_upsert (trim args) h L)) =
              length (spec_upsert (trim args) h L))"
proof -
  let ?L1 = "spec_upsert (trim args) h L"
  note first = save_upsert [OF assms]
  have second: "ledger_file (snd (saveCommand cr2 ctx2 args2 w2)) =
        Readable (JSONArray (spec_upsert (trim args) h2 ?L1)) \<and>
      length (spec_upsert (trim args) h2 ?L1) = length ?L1"
    if "trim args2 = trim args"
      and "ledger_file w2 = ledger_file (snd (saveCommand cr ctx args w))"
      and "fst (saveCommand cr2 ctx2 args2 w2) =
             Inr (Message Info (saved_message cr2 (trim args2) h2))"
    for cr2 ctx2 args2 w2 h2
  proof -
    have "ledger_entries (ledger_file w2) = Some ?L1"
      using that(2) first by (simp add: ledger_entries_def)
    from save_upsert [OF this _ that(3)] first that(1) show ?thesis
      by simp
  qed
  from first second show ?thesis by blast
qed

text \<open>The ledger of the test "should overwrite chatGitLogEntry if tag reused".\<close>

theorem save_keeps_one_entry_per_tag_witness:
  "ledger_entries (ledger_file save_world) =
     Some [\<lparr>tag = ''my-tag'', commitHash = ''old-commit-hash''\<rparr>] \<and>
   distinct (map tag [\<lparr>tag = ''my-tag'', commitHash = ''old-commit-hash''\<rparr>]) \<and>
   fst (saveCommand core1 save_ctx ''my-tag'' save_world) =
     Inr (Message Info (saved_message core1 (trim ''my-tag'') ''test-commit-hash'')) \<and>
   ledger_file (snd (saveCommand core1 save_ctx ''my-tag'' save_world)) =
     Readable (JSONArray [\<lparr>tag = ''my-tag'', commitHash = ''test-commit-hash''\<rparr>])"
proof -
  have 1: "ledger_entries (ledger_file save_world) =
      Some [\<lparr>tag = ''my-tag'', commitHash = ''old-commit-hash''\<rparr>]"
    by (simp add: save_world_def mk_world_def ledger_entries_def)
  have 2: "distinct (map tag [\<lparr>tag = ''my-tag'', commitHash = ''old-commit-hash''\<rparr>])"
    by simp
  have 3: "fst (saveCommand core1 save_ctx ''my-tag'' save_world) =
      Inr (Message Info (saved_message core1 (trim ''my-tag'') ''test-commit-hash''))"
    by (simp add: Let_def save_defs fs_defs store_defs ex_defs save_ctx_def save_world_def)
  from save_keeps_one_entry_per_tag [OF 1 2 3] 1 2 3 show ?thesis
    by (simp add: spec_upsert_def)
qed

text \<open>
  C7. When the status reports a clean tree, save makes no \<^verbatim>\<open>add\<close> and no
  \<^verbatim>\<open>commit\<close> call, whatever else happens. If it succeeds, \<^verbatim>\<open>revparse(['HEAD'])\<close>
  was called, the hash in the success message is the one it answered, and the ledger
  entry of the tag holds this hash. And it does so: once save has reached the history
  and the history is long enough, \<^verbatim>\<open>revparse(['HEAD'])\<close> is called, and save succeeds
  with the hash it answers when the ledger can be read and written.
\<close>

theorem save_clean_tree_records_head:
  assumes "isClean (repo w) = Inr True"
  shows "calls (snd (saveCommand cr ctx args w)) =
           calls w @ new_calls w (snd (saveCommand cr ctx args w)) \<and>
         filter is_stage_or_commit (new_calls w (snd (saveCommand cr ctx args w))) = [] \<and>
         (fst (saveCommand cr ctx args w) =
            Inr (Message Info (saved_message cr (trim args) h)) \<longrightarrow>
          revparse (repo w) = Inr h \<and>
          Revparse \<in> set (new_calls w (snd (saveCommand cr ctx args w))) \<and>
          ledger_lookup (trim args) (snd (saveCommand cr ctx args w)) =
            Some \<lparr>tag = trim args, commitHash = h\<rparr>) \<and>
         (save_reaches_history ctx (trim args) w \<and> chat ctx = Some hist \<and>
          INITIAL_HISTORY_LENGTH cr < length hist \<longrightarrow>
          Revparse \<in> set (new_calls w (snd (saveCommand cr ctx args w))) \<and>
          (revparse (repo w) = Inr h \<and> ledger_entries (ledger_file w) \<noteq> None \<and>
           write_error w = None \<longrightarrow>
             fst (saveCommand cr ctx args w) =
               Inr (Message Info (saved_message cr (trim args) h))))"
proof -
  have no_commit: "filter is_stage_or_commit (new_calls w (snd (saveCommand cr ctx args w))) = []"
  proof (cases "save_reaches_history ctx (trim args) w \<and>
              (\<exists>hist. chat ctx = Some hist \<and> INITIAL_HISTORY_LENGTH cr < length hist)")
    case True
    then obtain hist where eq: "saveCommand cr ctx args w =
        save_history cr ctx (trim args) hist (save_checked ctx (trim args) w)"
      using saveCommand_late by blast
    obtain res w' where run:
      "save_history cr ctx (trim args) hist (save_checked ctx (trim args) w) = (res, w')"
      by (cases "save_history cr ctx (trim args) hist (save_checked ctx (trim args) w)")
    from save_history_result [OF run] assms obtain cs where
      "calls w' = calls (save_checked ctx (trim args) w) @ cs" "filter is_stage_or_commit cs = []"
      by auto
    with eq run show ?thesis
      by (simp add: new_calls_def save_checked_calls)
  next
    case False
    from saveCommand_early [OF False] show ?thesis
      by (simp add: mutation_free_no_stage)
  qed
  have "revparse (repo w) = Inr h \<and>
        Revparse \<in> set (new_calls w (snd (saveCommand cr ctx args w))) \<and>
        ledger_lookup (trim args) (snd (saveCommand cr ctx args w)) =
          Some \<lparr>tag = trim args, commitHash = h\<rparr>"
    if "fst (saveCommand cr ctx args w) = Inr (Message Info (saved_message cr (trim args) h))"
    using saveCommand_saved_stores [OF that]
    by (auto simp add: new_calls_def ledger_lookup_def ledger_entries_def code_upsert_find)
  with no_commit saveCommand_calls [of cr ctx args w]
    saveCommand_clean
      [OF assms, where cr = cr and ctx = ctx and args = args and hist = hist and h = h]
  show ?thesis by blast
qed

theorem save_clean_tree_records_head_witness:
  "isClean (repo save_world) = Inr True \<and>
   fst (saveCommand core1 save_ctx ''my-tag'' save_world) =
     Inr (Message Info (saved_message core1 (trim ''my-tag'') ''test-commit-hash'')) \<and>
   filter is_stage_or_commit
     (new_calls save_world (snd (saveCommand core1 save_ctx ''my-tag'' save_world))) = [] \<and>
   revparse (repo save_world) = Inr ''test-commit-hash'' \<and>
   Revparse \<in> set (new_calls save_world (snd (saveCommand core1 save_ctx ''my-tag'' save_world))) \<and>
   ledger_lookup (trim ''my-tag'') (snd (saveCommand core1 save_ctx ''my-tag'' save_world)) =
     Some \<lparr>tag = trim ''my-tag'', commitHash = ''test-commit-hash''\<rparr>"
proof -
  have 1: "isClean (repo save_world) = Inr True"
    by (simp add: save_world_def mk_world_def git_clean_def)
  have 2: "fst (saveCommand core1 save_ctx ''my-tag'' save_world) =
      Inr (Message Info (saved_message core1 (trim ''my-tag'') ''test-commit-hash''))"
    by (simp add: Let_def save_defs fs_defs store_defs ex_defs save_ctx_def save_world_def)
  from save_clean_tree_records_head
    [OF 1, where cr = core1 and ctx = save_ctx and args = "''my-tag''"
       and h = "''test-commit-hash''"] 1 2
  show ?thesis by blast
qed

text \<open>
  C8, as amended. Let \<^verbatim>\<open>overwriteConfirmed\<close> be false and a checkpoint of the tag
  exist. Then save changes neither the repository nor the checkpoint store nor the
  ledger. If moreover the tag is not empty and the repository check passes, save returns
  the request for confirmation, carrying the tag and the original invocation: the raw
  text of the invocation when the context has one that is not empty, and the text
  \<^verbatim>\<open>/chat-git save\<close> followed by the tag otherwise. The two checks of lines 110 and
  121 come first, and each returns its own error: "Missing tag" for an empty tag, and
  one of the two repository errors when the repository check fails.
\<close>

theorem save_asks_before_overwrite:
  assumes "\<not> overwriteConfirmed ctx" and "trim args \<in> dom (checkpoints w)"
  shows "calls (snd (saveCommand cr ctx args w)) =
           calls w @ new_calls w (snd (saveCommand cr ctx args w)) \<and>
         filter is_mutation (new_calls w (snd (saveCommand cr ctx args w))) = [] \<and>
         ledger_file (snd (saveCommand cr ctx args w)) = ledger_file w \<and>
         checkpoints (snd (saveCommand cr ctx args w)) = checkpoints w \<and>
         repo (snd (saveCommand cr ctx args w)) = repo w \<and>
         (trim args \<noteq> [] \<and> checkIsRepo (repo w) = Inr True \<longrightarrow>
            (invocation_raw ctx = Some raw \<and> raw \<noteq> [] \<longrightarrow>
               fst (saveCommand cr ctx args w) = Inr (ConfirmAction (trim args) raw)) \<and>
            (invocation_raw ctx = None \<or> invocation_raw ctx = Some [] \<longrightarrow>
               fst (saveCommand cr ctx args w) =
                 Inr (ConfirmAction (trim args) (''/chat-git save '' @ trim args)))) \<and>
         (trim args = [] \<longrightarrow>
            fst (saveCommand cr ctx args w) =
              Inr (Message Error ''Missing tag. Usage: /chat save <tag>'')) \<and>
         (trim args \<noteq> [] \<and> checkIsRepo (repo w) = Inr False \<longrightarrow>
            fst (saveCommand cr ctx args w) =
              Inr (Message Error
                     ''Current working directory is not git repo. Unable to proceed with chat-git.'')) \<and>
         (trim args \<noteq> [] \<and> checkIsRepo (repo w) = Inl x \<longrightarrow>
            fst (saveCommand cr ctx args w) =
              Inr (Message Error
                     ''Current working directory is not git repo or checkIsRepo failed. Unable to proceed with chat-git.''))"
proof -
  have "\<not> (save_reaches_history ctx (trim args) w \<and>
              (\<exists>hist. chat ctx = Some hist \<and> INITIAL_HISTORY_LENGTH cr < length hist))"
    using assms by (simp add: save_reaches_history_def)
  from saveCommand_early [OF this]
  have frame: "filter is_mutation (new_calls w (snd (saveCommand cr ctx args w))) = [] \<and>
         ledger_file (snd (saveCommand cr ctx args w)) = ledger_file w \<and>
         checkpoints (snd (saveCommand cr ctx args w)) = checkpoints w \<and>
         repo (snd (saveCommand cr ctx args w)) = repo w"
    by simp
  have asked: "fst (saveCommand cr ctx args w) = Inr (ConfirmAction (trim args) raw)"
    if "trim args \<noteq> []" "checkIsRepo (repo w) = Inr True" "invocation_raw ctx = Some raw"
      "raw \<noteq> []"
    using that assms
    by (simp add: saveCommand_def repo_check_def originalInvocation_def store_defs Let_def)
  have by_default: "fst (saveCommand cr ctx args w) =
        Inr (ConfirmAction (trim args) (''/chat-git save '' @ trim args))"
    if "trim args \<noteq> []" "checkIsRepo (repo w) = Inr True"
      "invocation_raw ctx = None \<or> invocation_raw ctx = Some []"
    using that assms
    by (auto simp add: saveCommand_def repo_check_def originalInvocation_def store_defs Let_def)
  have no_tag: "fst (saveCommand cr ctx args w) =
        Inr (Message Error ''Missing tag. Usage: /chat save <tag>'')"
    if "trim args = []"
    using that by (simp add: saveCommand_def)
  have no_repo: "fst (saveCommand cr ctx args w) =
        Inr (Message Error
               ''Current working directory is not git repo. Unable to proceed with chat-git.'')"
    if "trim args \<noteq> []" "checkIsRepo (repo w) = Inr False"
    using that by (simp add: saveCommand_def repo_check_def store_defs Let_def)
  have check_failed: "fst (saveCommand cr ctx args w) =
        Inr (Message Error
               ''Current working directory is not git repo or checkIsRepo failed. Unable to proceed with chat-git.'')"
    if "trim args \<noteq> []" "checkIsRepo (repo w) = Inl x"
    using that by (simp add: saveCommand_def repo_check_def store_defs Let_def)
  from frame asked by_default no_tag no_repo check_failed saveCommand_calls [of cr ctx args w]
  show ?thesis by blast
qed

text \<open>
  With the chat of the tests and a checkpoint stored for \<^verbatim>\<open>my-tag\<close>: the raw command
  line is carried as it was typed.
\<close>

theorem save_asks_before_overwrite_witness:
  "\<not> overwriteConfirmed asked_ctx \<and> trim ''my-tag'' \<in> dom (checkpoints exists_world) \<and>
   trim ''my-tag'' \<noteq> [] \<and> checkIsRepo (repo exists_world) = Inr True \<and>
   invocation_raw asked_ctx = Some ''/chat-git  save my-tag'' \<and>
   fst (saveCommand core1 asked_ctx ''my-tag'' exists_world) =
     Inr (ConfirmAction ''my-tag'' ''/chat-git  save my-tag'') \<and>
   filter is_mutation
     (new_calls exists_world (snd (saveCommand core1 asked_ctx ''my-tag'' exists_world))) = [] \<and>
   checkpoints (snd (saveCommand core1 asked_ctx ''my-tag'' exists_world)) =
     checkpoints exists_world"
proof -
  have 1: "\<not> overwriteConfirmed asked_ctx"
    by (simp add: asked_ctx_def save_ctx_def ctx0_def)
  have 2: "trim ''my-tag'' \<in> dom (checkpoints exists_world)"
    by (simp add: exists_world_def mk_world_def)
  have 3: "trim ''my-tag'' \<noteq> []" "checkIsRepo (repo exists_world) = Inr True"
    by (simp_all add: exists_world_def mk_world_def git_clean_def)
  have 4: "invocation_raw asked_ctx = Some ''/chat-git  save my-tag''"
    "''/chat-git  save my-tag'' \<noteq> []"
    by (simp_all add: asked_ctx_def)
  have 5: "trim ''my-tag'' = ''my-tag''"
    by simp
  from save_asks_before_overwrite
    [OF 1 2, where cr = core1 and raw = "''/chat-git  save my-tag''"] 1 2 3 4
  show ?thesis unfolding 5 by blast
qed

text \<open>
  C8 as stated fails outside a git repository: the checkpoint exists and the overwrite
  is not confirmed, but the result is the error of line 125, not a request for
  confirmation.
\<close>

theorem save_without_repository_does_not_ask:
  "\<not> overwriteConfirmed save_ctx \<and> ''my-tag'' \<in> dom (checkpoints norepo_world) \<and>
   fst (saveCommand core1 save_ctx ''my-tag'' norepo_world) =
     Inr (Message Error
            ''Current working directory is not git repo. Unable to proceed with chat-git.'') \<and>
   fst (saveCommand core1 save_ctx ''my-tag'' norepo_world) \<noteq>
     Inr (ConfirmAction ''my-tag'' ''/chat-git save my-tag'')"
  by (simp add: Let_def save_defs fs_defs store_defs ex_defs save_ctx_def norepo_world_def)

subsection \<open>Resume\<close>

text \<open>The loop of resume computes the display history of the specification.\<close>

lemma item_role_type_spec: "plain_role item \<Longrightarrow> item_role_type item = spec_role (role item)"
  by (auto simp add: item_role_type_def spec_role_def rolemap_def plain_role_def
      split: option.splits)

lemma parts_text_concat:
  "concat (map (\<lambda>m. case part_text m of None \<Rightarrow> [] | Some s \<Rightarrow> s)
             (filter (\<lambda>m. case part_text m of None \<Rightarrow> False | Some s \<Rightarrow> s \<noteq> []) ps)) =
   concat (map (\<lambda>p. case part_text p of None \<Rightarrow> [] | Some s \<Rightarrow> s) ps)"
  by (induction ps) (auto split: option.splits)

lemma item_parts_text_spec: "item_parts_text item = spec_text item"
  by (simp add: item_parts_text_def spec_text_def parts_text_concat split: option.splits)

lemma uiHistory_loop_spec:
  "list_all plain_role items \<Longrightarrow>
   uiHistory_loop acc items =
     acc @ filter (\<lambda>i. item_text i \<noteq> [])
             (map (\<lambda>t. \<lparr>item_type = spec_role (role t), item_text = spec_text t\<rparr>) items)"
  by (induction items arbitrary: acc)
     (simp_all add: Let_def item_parts_text_spec item_role_type_spec)

lemma uiHistory_spec_display:
  "list_all plain_role (drop n H) \<Longrightarrow> uiHistory_loop [] (drop n H) = spec_display n H"
  by (simp add: uiHistory_loop_spec spec_display_def)

lemma resume_lookup_ledger:
  "(resume_lookup cr t w = Inr h) = (map_option commitHash (ledger_lookup t w) = Some h)"
  by (auto simp add: resume_lookup_def ledger_lookup_def ledger_entries_def fs_defs
      split: file_state.splits json_text.splits option.splits)

lemma resume_lookup_log [simp]: "resume_lookup cr t (log c w) = resume_lookup cr t w"
  by (simp add: resume_lookup_def readFileSync_def)

lemma auth_mismatch_same [simp]: "\<not> auth_mismatch a a"
  by (simp add: auth_mismatch_def split: option.splits)

text \<open>When resume returns the history to load, and what it returns then.\<close>

lemma resumeCommand_LoadHistory:
  "(fst (resumeCommand cr ctx args w) = Inr (LoadHistory d r)) =
     (resume_reaches_status ctx (trim args) w \<and> isClean (repo w) = Inr True \<and>
      (case ledger_lookup (trim args) w of
         None \<Rightarrow> False
       | Some e \<Rightarrow> checkout (repo w) (commitHash e) = None) \<and>
      (case checkpoints w (trim args) of
         None \<Rightarrow> False
       | Some cp \<Rightarrow> r = history cp \<and>
           d = uiHistory_loop [] (drop (INITIAL_HISTORY_LENGTH cr) (history cp))))"
  by (auto simp add: resumeCommand_def resume_checkout_def repo_check_def resume_lookup_def
      resume_reaches_status_def ledger_lookup_def ledger_entries_def fs_defs store_defs Let_def
      split: file_state.splits json_text.splits option.splits sum.splits if_splits)

lemma resumeCommand_calls:
  "calls (snd (resumeCommand cr ctx args w)) =
     calls w @ new_calls w (snd (resumeCommand cr ctx args w))"
  by (auto simp add: resumeCommand_def resume_checkout_def repo_check_def new_calls_def
      store_defs Let_def split: option.splits sum.splits if_splits)

lemma resumeCommand_dirty_message:
  assumes "isClean (repo w) = Inr False"
  shows "(fst (resumeCommand cr ctx args w) =
            Inr (Message Error ''Git repo is not clean, unable to checkout.'')) =
           resume_reaches_status ctx (trim args) w"
  using assms
  by (auto simp add: resume_defs resume_reaches_status_def ledger_lookup_def
      ledger_entries_def fs_defs store_defs Let_def
      split: file_state.splits json_text.splits option.splits sum.splits if_splits)

text \<open>The result of each check that resume makes before the status, when it fails.\<close>

lemma resumeCommand_no_tag:
  "trim args = [] \<Longrightarrow>
   fst (resumeCommand cr ctx args w) =
     Inr (Message Error ''Missing tag. Usage: /chat-git resume <tag>'')"
  by (simp add: resumeCommand_def)

lemma resumeCommand_not_found:
  "trim args \<noteq> [] \<Longrightarrow> history (fst (loadCheckpoint (trim args) w)) = [] \<Longrightarrow>
   fst (resumeCommand cr ctx args w) =
     Inr (Message Info
            (''No saved checkpoint found with tag: '' @ decodeTagName cr (trim args) @ ''.''))"
  by (auto simp add: resumeCommand_def store_defs Let_def split: option.splits)

lemma resumeCommand_ledger_errors:
  assumes "trim args \<noteq> []" "checkpoints w (trim args) = Some cp" "history cp \<noteq> []"
  shows "(ledger_file w = Absent \<longrightarrow>
            fst (resumeCommand cr ctx args w) =
              Inr (Message Error
                     (''Error reading from chat-git log file .gemini/chatGitTags.json, '' @
                      ''Error: ENOENT: no such file or directory, open '' @ [CHR 0x27] @
                      ''.gemini/chatGitTags.json'' @ [CHR 0x27]))) \<and>
         (ledger_file w = Unreadable x \<or> ledger_file w = Readable (NotJSON x) \<longrightarrow>
            fst (resumeCommand cr ctx args w) =
              Inr (Message Error
                     (''Error reading from chat-git log file .gemini/chatGitTags.json, '' @ x))) \<and>
         (ledger_file w = Readable (JSONArray L) \<and>
          find (\<lambda>entry. tag entry = trim args) L = None \<longrightarrow>
            fst (resumeCommand cr ctx args w) =
              Inr (Message Error
                     (''No git commit associated with tag: '' @ decodeTagName cr (trim args) @
                      ''.'')))"
  using assms
  by (auto simp add: resumeCommand_def resume_lookup_def fs_defs store_defs chatGitLogFile_def
      Let_def)

lemma resumeCommand_auth_and_repo_errors:
  assumes "trim args \<noteq> []" "checkpoints w (trim args) = Some cp" "history cp \<noteq> []"
    and "ledger_file w = Readable (JSONArray L)"
    and "find (\<lambda>entry. tag entry = trim args) L = Some e"
  shows "(authType cp = Some a \<and> currentAuthType ctx = Some b \<and> a \<noteq> [] \<and> b \<noteq> [] \<and> a \<noteq> b \<longrightarrow>
            fst (resumeCommand cr ctx args w) =
              Inr (Message Error
                     (''Cannot resume chat. It was saved with a different authentication method ('' @
                      a @ '') than the current one ('' @ b @ '').''))) \<and>
         (\<not> auth_mismatch (authType cp) (currentAuthType ctx) \<longrightarrow>
            (checkIsRepo (repo w) = Inr False \<longrightarrow>
               fst (resumeCommand cr ctx args w) =
                 Inr (Message Error
                        ''Current working directory is not git repo. Unable to proceed with chat-git.'')) \<and>
            (checkIsRepo (repo w) = Inl x \<longrightarrow>
               fst (resumeCommand cr ctx args w) =
                 Inr (Message Error
                        ''Current working directory is not git repo or checkIsRepo failed. Unable to proceed with chat-git.'')))"
  using assms
  by (auto simp add: resumeCommand_def resume_lookup_def resume_checkout_def repo_check_def
      auth_mismatch_def auth_message_def fs_defs store_defs Let_def)

text \<open>
  C3, as amended. When the tree is not clean, resume makes no checkout (it changes no
  store) and never returns a history to load; it returns the message "Git repo is not
  clean, unable to checkout." exactly when it reaches the status: the tag is not empty,
  the stored history is not empty, the ledger has an entry of the tag, the
  authentication types do not conflict and the repository check passes. A check before
  the status that fails returns its own result first: the error "Missing tag" for an
  empty tag, the information "No saved checkpoint found" for an empty stored history,
  the error "Error reading from chat-git log file" when the ledger cannot be read or
  parsed, "No git commit associated with tag" when it has no entry of the tag, "Cannot
  resume chat" with both authentication types when they conflict, and one of the two
  repository errors when the repository check fails.
\<close>

theorem resume_dirty_tree:
  assumes "isClean (repo w) = Inr False"
  shows "calls (snd (resumeCommand cr ctx args w)) =
           calls w @ new_calls w (snd (resumeCommand cr ctx args w)) \<and>
         filter is_mutation (new_calls w (snd (resumeCommand cr ctx args w))) = [] \<and>
         (\<forall>d r. fst (resumeCommand cr ctx args w) \<noteq> Inr (LoadHistory d r)) \<and>
         (fst (resumeCommand cr ctx args w) =
            Inr (Message Error ''Git repo is not clean, unable to checkout.'')) =
           resume_reaches_status ctx (trim args) w \<and>
         (trim args = [] \<longrightarrow>
            fst (resumeCommand cr ctx args w) =
              Inr (Message Error ''Missing tag. Usage: /chat-git resume <tag>'')) \<and>
         (trim args \<noteq> [] \<and> history (fst (loadCheckpoint (trim args) w)) = [] \<longrightarrow>
            fst (resumeCommand cr ctx args w) =
              Inr (Message Info
                     (''No saved checkpoint found with tag: '' @ decodeTagName cr (trim args) @
                      ''.''))) \<and>
         (trim args \<noteq> [] \<and> checkpoints w (trim args) = Some cp \<and> history cp \<noteq> [] \<longrightarrow>
            (ledger_file w = Absent \<longrightarrow>
               fst (resumeCommand cr ctx args w) =
                 Inr (Message Error
                        (''Error reading from chat-git log file .gemini/chatGitTags.json, '' @
                         ''Error: ENOENT: no such file or directory, open '' @ [CHR 0x27] @
                         ''.gemini/chatGitTags.json'' @ [CHR 0x27]))) \<and>
            (ledger_file w = Unreadable x \<or> ledger_file w = Readable (NotJSON x) \<longrightarrow>
               fst (resumeCommand cr ctx args w) =
                 Inr (Message Error
                        (''Error reading from chat-git log file .gemini/chatGitTags.json, '' @
                         x))) \<and>
            (ledger_file w = Readable (JSONArray L) \<and>
             find (\<lambda>entry. tag entry = trim args) L = None \<longrightarrow>
               fst (resumeCommand cr ctx args w) =
                 Inr (Message Error
                        (''No git commit associated with tag: '' @
                         decodeTagName cr (trim args) @ ''.''))) \<and>
            (ledger_file w = Readable (JSONArray L) \<and>
             find (\<lambda>entry. tag entry = trim args) L = Some e \<longrightarrow>
               (authType cp = Some a \<and> currentAuthType ctx = Some b \<and> a \<noteq> [] \<and> b \<noteq> [] \<and>
                a \<noteq> b \<longrightarrow>
                  fst (resumeCommand cr ctx args w) =
                    Inr (Message Error
                           (''Cannot resume chat. It was saved with a different authentication method ('' @
                            a @ '') than the current one ('' @ b @ '').''))) \<and>
               (\<not> auth_mismatch (authType cp) (currentAuthType ctx) \<longrightarrow>
                  (checkIsRepo (repo w) = Inr False \<longrightarrow>
                     fst (resumeCommand cr ctx args w) =
                       Inr (Message Error
                              ''Current working directory is not git repo. Unable to proceed with chat-git.'')) \<and>
                  (checkIsRepo (repo w) = Inl y \<longrightarrow>
                     fst (resumeCommand cr ctx args w) =
                       Inr (Message Error
                              ''Current working directory is not git repo or checkIsRepo failed. Unable to proceed with chat-git.'')) \<and>
                  (checkIsRepo (repo w) = Inr True \<longrightarrow>
                     fst (resumeCommand cr ctx args w) =
                       Inr (Message Error ''Git repo is not clean, unable to checkout.'')))))"
proof -
  have 1: "filter is_mutation (new_calls w (snd (resumeCommand cr ctx args w))) = []"
    using assms
    by (auto simp add: resumeCommand_def resume_checkout_def repo_check_def new_calls_def
        store_defs Let_def split: option.splits sum.splits if_splits)
  have 2: "fst (resumeCommand cr ctx args w) \<noteq> Inr (LoadHistory d r)" for d r
    using assms by (simp add: resumeCommand_LoadHistory)
  note 3 = resumeCommand_dirty_message [OF assms, of cr ctx args]
  have 4: "fst (resumeCommand cr ctx args w) =
        Inr (Message Error ''Git repo is not clean, unable to checkout.'')"
    if "trim args \<noteq> []" "checkpoints w (trim args) = Some cp" "history cp \<noteq> []"
      "ledger_file w = Readable (JSONArray L)"
      "find (\<lambda>entry. tag entry = trim args) L = Some e"
      "\<not> auth_mismatch (authType cp) (currentAuthType ctx)" "checkIsRepo (repo w) = Inr True"
    using that
    by (simp add: 3 resume_reaches_status_def ledger_lookup_def ledger_entries_def)
  note 5 = resumeCommand_no_tag [of args cr ctx w]
  note 6 = resumeCommand_not_found [of args w cr ctx]
  have 7: "(ledger_file w = Absent \<longrightarrow>
               fst (resumeCommand cr ctx args w) =
                 Inr (Message Error
                        (''Error reading from chat-git log file .gemini/chatGitTags.json, '' @
                         ''Error: ENOENT: no such file or directory, open '' @ [CHR 0x27] @
                         ''.gemini/chatGitTags.json'' @ [CHR 0x27]))) \<and>
            (ledger_file w = Unreadable x \<or> ledger_file w = Readable (NotJSON x) \<longrightarrow>
               fst (resumeCommand cr ctx args w) =
                 Inr (Message Error
                        (''Error reading from chat-git log file .gemini/chatGitTags.json, '' @
                         x))) \<and>
            (ledger_file w = Readable (JSONArray L) \<and>
             find (\<lambda>entry. tag entry = trim args) L = None \<longrightarrow>
               fst (resumeCommand cr ctx args w) =
                 Inr (Message Error
                        (''No git commit associated with tag: '' @
                         decodeTagName cr (trim args) @ ''.'')))"
    if "trim args \<noteq> []" "checkpoints w (trim args) = Some cp" "history cp \<noteq> []"
    using resumeCommand_ledger_errors [OF that] by blast
  have 8: "(authType cp = Some a \<and> currentAuthType ctx = Some b \<and> a \<noteq> [] \<and> b \<noteq> [] \<and>
                a \<noteq> b \<longrightarrow>
                  fst (resumeCommand cr ctx args w) =
                    Inr (Message Error
                           (''Cannot resume chat. It was saved with a different authentication method ('' @
                            a @ '') than the current one ('' @ b @ '').''))) \<and>
               (\<not> auth_mismatch (authType cp) (currentAuthType ctx) \<longrightarrow>
                  (checkIsRepo (repo w) = Inr False \<longrightarrow>
                     fst (resumeCommand cr ctx args w) =
                       Inr (Message Error
                              ''Current working directory is not git repo. Unable to proceed with chat-git.'')) \<and>
                  (checkIsRepo (repo w) = Inl y \<longrightarrow>
                     fst (resumeCommand cr ctx args w) =
                       Inr (Message Error
                              ''Current working directory is not git repo or checkIsRepo failed. Unable to proceed with chat-git.'')))"
    if "trim args \<noteq> []" "checkpoints w (trim args) = Some cp" "history cp \<noteq> []"
      "ledger_file w = Readable (JSONArray L)"
      "find (\<lambda>entry. tag entry = trim args) L = Some e"
    using resumeCommand_auth_and_repo_errors [OF that] by blast
  from 1 2 3 4 5 6 7 8 resumeCommand_calls [of cr ctx args w] show ?thesis
    by blast
qed

theorem resume_dirty_tree_witness:
  "isClean (repo (resume_world [turn ''user'' ''test''] dirty)) = Inr False \<and>
   resume_reaches_status ctx0 (trim ''good-tag'') (resume_world [turn ''user'' ''test''] dirty) \<and>
   fst (resumeCommand core1 ctx0 ''good-tag'' (resume_world [turn ''user'' ''test''] dirty)) =
     Inr (Message Error ''Git repo is not clean, unable to checkout.'') \<and>
   filter is_mutation
     (new_calls (resume_world [turn ''user'' ''test''] dirty)
        (snd (resumeCommand core1 ctx0 ''good-tag''
                (resume_world [turn ''user'' ''test''] dirty)))) = []"
proof -
  let ?w = "resume_world [turn ''user'' ''test''] dirty"
  have 1: "isClean (repo ?w) = Inr False"
    by (simp add: resume_ex_defs)
  have 2: "resume_reaches_status ctx0 (trim ''good-tag'') ?w"
    by (simp add: resume_reaches_status_def ledger_lookup_def ledger_entries_def
        auth_mismatch_def resume_ex_defs)
  from resume_dirty_tree [OF 1, where cr = core1 and ctx = ctx0 and args = "''good-tag''"] 1 2 show ?thesis
    by blast
qed

text \<open>
  C3 as stated fails when no checkpoint is stored for the tag: the tree is not clean,
  and resume returns "No saved checkpoint found" first.
\<close>

theorem resume_dirty_tree_not_found_first:
  "isClean (repo (resume_world [] dirty)) = Inr False \<and>
   fst (resumeCommand core1 ctx0 ''good-tag'' (resume_world [] dirty)) =
     Inr (Message Info ''No saved checkpoint found with tag: good-tag.'') \<and>
   fst (resumeCommand core1 ctx0 ''good-tag'' (resume_world [] dirty)) \<noteq>
     Inr (Message Error ''Git repo is not clean, unable to checkout.'')"
  by (simp add: Let_def resume_defs fs_defs store_defs resume_ex_defs)

text \<open>
  C4, as amended. A chat history no longer than \<^verbatim>\<open>INITIAL_HISTORY_LENGTH\<close> is never
  saved: save changes no store, and returns "No conversation found to save." when it
  reaches the history. Resume returns "No saved checkpoint found" exactly when the tag
  is not empty and the stored history is empty. A stored history that is not empty but no
  longer than \<^verbatim>\<open>INITIAL_HISTORY_LENGTH\<close> is resumed as any other: when the checks pass
  and the checkout succeeds, the checkout is made and the history is returned for
  loading, with an empty display history.
\<close>

theorem short_history_save_and_resume:
  "(chat ctx = Some H \<and> length H \<le> INITIAL_HISTORY_LENGTH cr \<longrightarrow>
      calls (snd (saveCommand cr ctx args w)) =
        calls w @ new_calls w (snd (saveCommand cr ctx args w)) \<and>
      filter is_mutation (new_calls w (snd (saveCommand cr ctx args w))) = [] \<and>
      ledger_file (snd (saveCommand cr ctx args w)) = ledger_file w \<and>
      checkpoints (snd (saveCommand cr ctx args w)) = checkpoints w \<and>
      (save_reaches_history ctx (trim args) w \<longrightarrow>
         fst (saveCommand cr ctx args w) = Inr (Message Info ''No conversation found to save.''))) \<and>
   (fst (resumeCommand cr ctx args w) =
      Inr (Message Info
             (''No saved checkpoint found with tag: '' @ decodeTagName cr (trim args) @ ''.''))) =
     (trim args \<noteq> [] \<and> history (fst (loadCheckpoint (trim args) w)) = []) \<and>
   (checkpoints w (trim args) = Some cp \<and> length (history cp) \<le> INITIAL_HISTORY_LENGTH cr \<and>
    resume_reaches_status ctx (trim args) w \<and> isClean (repo w) = Inr True \<and>
    ledger_lookup (trim args) w = Some e \<and> checkout (repo w) (commitHash e) = None \<longrightarrow>
      fst (resumeCommand cr ctx args w) = Inr (LoadHistory [] (history cp)) \<and>
      Checkout (commitHash e) \<in> set (new_calls w (snd (resumeCommand cr ctx args w))))"
proof -
  have save_part: "calls (snd (saveCommand cr ctx args w)) =
        calls w @ new_calls w (snd (saveCommand cr ctx args w)) \<and>
      filter is_mutation (new_calls w (snd (saveCommand cr ctx args w))) = [] \<and>
      ledger_file (snd (saveCommand cr ctx args w)) = ledger_file w \<and>
      checkpoints (snd (saveCommand cr ctx args w)) = checkpoints w \<and>
      (save_reaches_history ctx (trim args) w \<longrightarrow>
         fst (saveCommand cr ctx args w) = Inr (Message Info ''No conversation found to save.''))"
    if short: "chat ctx = Some H" "length H \<le> INITIAL_HISTORY_LENGTH cr"
  proof -
    have "\<not> (save_reaches_history ctx (trim args) w \<and>
              (\<exists>hist. chat ctx = Some hist \<and> INITIAL_HISTORY_LENGTH cr < length hist))"
      using short by auto
    from saveCommand_early [OF this]
    have frame: "filter is_mutation (new_calls w (snd (saveCommand cr ctx args w))) = [] \<and>
        ledger_file (snd (saveCommand cr ctx args w)) = ledger_file w \<and>
        checkpoints (snd (saveCommand cr ctx args w)) = checkpoints w"
      by simp
    have "fst (saveCommand cr ctx args w) = Inr (Message Info ''No conversation found to save.'')"
      if "save_reaches_history ctx (trim args) w"
      using that short
      by (auto simp add: saveCommand_def save_reaches_history_def repo_check_def store_defs
          Let_def split: if_splits)
    with frame saveCommand_calls [of cr ctx args w] show ?thesis by blast
  qed
  have not_found: "(fst (resumeCommand cr ctx args w) =
      Inr (Message Info
             (''No saved checkpoint found with tag: '' @ decodeTagName cr (trim args) @ ''.''))) =
     (trim args \<noteq> [] \<and> history (fst (loadCheckpoint (trim args) w)) = [])"
    by (auto simp add: resume_defs store_defs Let_def
        split: file_state.splits json_text.splits option.splits sum.splits if_splits)
  have loads: "fst (resumeCommand cr ctx args w) = Inr (LoadHistory [] (history cp)) \<and>
      Checkout (commitHash e) \<in> set (new_calls w (snd (resumeCommand cr ctx args w)))"
    if "checkpoints w (trim args) = Some cp" "length (history cp) \<le> INITIAL_HISTORY_LENGTH cr"
      "resume_reaches_status ctx (trim args) w" "isClean (repo w) = Inr True"
      "ledger_lookup (trim args) w = Some e" "checkout (repo w) (commitHash e) = None"
  proof -
    have "fst (resumeCommand cr ctx args w) = Inr (LoadHistory [] (history cp))"
      using that by (simp add: resumeCommand_LoadHistory)
    moreover have "resume_lookup cr (trim args) w = Inr (commitHash e)"
      using that(5) by (simp add: resume_lookup_ledger)
    then have "Checkout (commitHash e) \<in> set (new_calls w (snd (resumeCommand cr ctx args w)))"
      using that
      by (auto simp add: resumeCommand_def resume_checkout_def repo_check_def
          resume_reaches_status_def new_calls_def store_defs Let_def
          split: option.splits)
    ultimately show ?thesis by simp
  qed
  from save_part not_found loads show ?thesis by blast
qed

theorem short_history_save_and_resume_witness:
  "chat short_ctx = Some [turn ''user'' ''context''] \<and>
   length [turn ''user'' ''context''] \<le> INITIAL_HISTORY_LENGTH core1 \<and>
   save_reaches_history short_ctx (trim ''good-tag'')
     (resume_world [turn ''user'' ''test''] git_clean) \<and>
   fst (saveCommand core1 short_ctx ''good-tag'' (resume_world [turn ''user'' ''test''] git_clean)) =
     Inr (Message Info ''No conversation found to save.'') \<and>
   filter is_mutation
     (new_calls (resume_world [turn ''user'' ''test''] git_clean)
        (snd (saveCommand core1 short_ctx ''good-tag''
                (resume_world [turn ''user'' ''test''] git_clean)))) = [] \<and>
   length (history \<lparr>history = [turn ''user'' ''test''], authType = Some ''oauth-personal''\<rparr>) \<le>
     INITIAL_HISTORY_LENGTH core1 \<and>
   fst (resumeCommand core1 short_ctx ''good-tag''
          (resume_world [turn ''user'' ''test''] git_clean)) =
     Inr (LoadHistory []
            (history \<lparr>history = [turn ''user'' ''test''], authType = Some ''oauth-personal''\<rparr>)) \<and>
   Checkout (commitHash good_entry) \<in>
     set (new_calls (resume_world [turn ''user'' ''test''] git_clean)
            (snd (resumeCommand core1 short_ctx ''good-tag''
                    (resume_world [turn ''user'' ''test''] git_clean))))"
proof -
  let ?w = "resume_world [turn ''user'' ''test''] git_clean"
  let ?cp = "\<lparr>history = [turn ''user'' ''test''], authType = Some ''oauth-personal''\<rparr>"
  have 1: "chat short_ctx = Some [turn ''user'' ''context'']"
    "length [turn ''user'' ''context''] \<le> INITIAL_HISTORY_LENGTH core1"
    by (simp_all add: short_ctx_def core1_def)
  have 2: "save_reaches_history short_ctx (trim ''good-tag'') ?w"
    by (simp add: save_reaches_history_def short_ctx_def resume_ex_defs)
  have 3: "checkpoints ?w (trim ''good-tag'') = Some ?cp"
    "length (history ?cp) \<le> INITIAL_HISTORY_LENGTH core1"
    by (simp_all add: resume_ex_defs)
  have 4: "resume_reaches_status short_ctx (trim ''good-tag'') ?w"
    by (simp add: resume_reaches_status_def ledger_lookup_def ledger_entries_def
        auth_mismatch_def short_ctx_def resume_ex_defs)
  have 5: "isClean (repo ?w) = Inr True" "ledger_lookup (trim ''good-tag'') ?w = Some good_entry"
    "checkout (repo ?w) (commitHash good_entry) = None"
    by (simp_all add: ledger_lookup_def ledger_entries_def good_entry_def resume_ex_defs)
  note inst = short_history_save_and_resume
    [where ctx = short_ctx and H = "[turn ''user'' ''context'']" and cr = core1 and w = ?w
       and args = "''good-tag''" and cp = ?cp and e = good_entry]
  from inst 1 2 have save_part:
    "fst (saveCommand core1 short_ctx ''good-tag'' ?w) =
       Inr (Message Info ''No conversation found to save.'') \<and>
     filter is_mutation (new_calls ?w (snd (saveCommand core1 short_ctx ''good-tag'' ?w))) = []"
    by blast
  from inst 3 4 5 have resume_part:
    "fst (resumeCommand core1 short_ctx ''good-tag'' ?w) = Inr (LoadHistory [] (history ?cp)) \<and>
     Checkout (commitHash good_entry) \<in>
       set (new_calls ?w (snd (resumeCommand core1 short_ctx ''good-tag'' ?w)))"
    by blast
  from 1 2 3 save_part resume_part show ?thesis
    by blast
qed

text \<open>
  C4 as stated fails for resume: with \<^verbatim>\<open>INITIAL_HISTORY_LENGTH\<close> 1 and a stored
  history of one turn (as the tests of resume have it), resume checks the commit out and
  returns the history for loading.
\<close>

theorem resume_short_history_checks_out:
  "length [turn ''user'' ''test''] \<le> INITIAL_HISTORY_LENGTH core1 \<and>
   fst (resumeCommand core1 ctx0 ''good-tag'' (resume_world [turn ''user'' ''test''] git_clean)) =
     Inr (LoadHistory [] [turn ''user'' ''test'']) \<and>
   calls (snd (resumeCommand core1 ctx0 ''good-tag''
                 (resume_world [turn ''user'' ''test''] git_clean))) =
     [Initialize, LoadCheckpoint ''good-tag'', CheckIsRepo, Status,
      Checkout ''1234567890abcdef''] \<and>
   fst (resumeCommand core1 ctx0 ''good-tag'' (resume_world [turn ''user'' ''test''] git_clean)) \<noteq>
     Inr (Message Info ''No saved checkpoint found with tag: good-tag.'')"
  by (simp add: Let_def resume_defs fs_defs store_defs resume_ex_defs auth_mismatch_def)

text \<open>
  C6, as amended. Let save succeed for the tag \<open>T\<close> with the chat history \<open>H\<close>; \<open>H\<close> is
  then longer than \<^verbatim>\<open>INITIAL_HISTORY_LENGTH\<close>, and the last thing save did was to write
  the ledger file, after its calls of the repository. In every state that has the ledger
  file and the checkpoint store as save left them, a resume of \<open>T\<close> that returns a history
  to load returns \<open>H\<close> itself as raw history and, when no turn of \<open>H\<close> after the hidden
  prefix has the name of a member of \<^verbatim>\<open>Object.prototype\<close> as its role, the display
  history of the specification (the turns of \<open>H\<close> after the hidden prefix, roles mapped,
  texts concatenated, empty turns dropped). With the same authentication type and the
  repository check passed, resume returns them when the status is clean and the checkout
  of the saved hash succeeds, and the message "Git repo is not clean, unable to
  checkout." when the status is not clean.
\<close>

theorem save_resume_round_trip:
  assumes "fst (saveCommand cr ctx args w) = Inr (Message Info (saved_message cr (trim args) h))"
    and "chat ctx = Some H"
    and "ledger_file w2 = ledger_file (snd (saveCommand cr ctx args w))"
    and "checkpoints w2 = checkpoints (snd (saveCommand cr ctx args w))"
  shows "INITIAL_HISTORY_LENGTH cr < length H \<and>
         (\<exists>cs s. new_calls w (snd (saveCommand cr ctx args w)) = cs @ [WriteFileSync s] \<and>
            ledger_file (snd (saveCommand cr ctx args w)) = Readable s) \<and>
         (\<forall>d r. fst (resumeCommand cr ctx2 args w2) = Inr (LoadHistory d r) \<longrightarrow>
            r = H \<and>
            (list_all plain_role (drop (INITIAL_HISTORY_LENGTH cr) H) \<longrightarrow>
               d = spec_display (INITIAL_HISTORY_LENGTH cr) H)) \<and>
         (currentAuthType ctx2 = currentAuthType ctx \<and> checkIsRepo (repo w2) = Inr True \<and>
          isClean (repo w2) = Inr True \<and> checkout (repo w2) h = None \<longrightarrow>
            (\<exists>d. fst (resumeCommand cr ctx2 args w2) = Inr (LoadHistory d H)) \<and>
            (list_all plain_role (drop (INITIAL_HISTORY_LENGTH cr) H) \<longrightarrow>
               fst (resumeCommand cr ctx2 args w2) =
                 Inr (LoadHistory (spec_display (INITIAL_HISTORY_LENGTH cr) H) H))) \<and>
         (currentAuthType ctx2 = currentAuthType ctx \<and> checkIsRepo (repo w2) = Inr True \<and>
          isClean (repo w2) = Inr False \<longrightarrow>
            fst (resumeCommand cr ctx2 args w2) =
              Inr (Message Error ''Git repo is not clean, unable to checkout.''))"
proof -
  from saveCommand_saved_stores [OF assms(1)] assms(2) obtain L where
    long: "INITIAL_HISTORY_LENGTH cr < length H" and tag: "trim args \<noteq> []"
    and cps: "checkpoints (snd (saveCommand cr ctx args w)) =
        (checkpoints w)(trim args \<mapsto> \<lparr>history = H, authType = currentAuthType ctx\<rparr>)"
    and led: "ledger_file (snd (saveCommand cr ctx args w)) =
        Readable (JSONArray (code_upsert (trim args) h L))"
    by auto
  note written = saveCommand_last_write [OF assms(1)]
  have stored: "checkpoints w2 (trim args) =
      Some \<lparr>history = H, authType = currentAuthType ctx\<rparr>"
    using cps assms(4) by simp
  have found: "ledger_lookup (trim args) w2 = Some \<lparr>tag = trim args, commitHash = h\<rparr>"
    using led assms(3) by (simp add: ledger_lookup_def ledger_entries_def code_upsert_find)
  have nonempty: "H \<noteq> []"
    using long by auto
  have returned: "r = H \<and>
      (list_all plain_role (drop (INITIAL_HISTORY_LENGTH cr) H) \<longrightarrow>
         d = spec_display (INITIAL_HISTORY_LENGTH cr) H)"
    if "fst (resumeCommand cr ctx2 args w2) = Inr (LoadHistory d r)" for d r
    using that stored by (auto simp add: resumeCommand_LoadHistory uiHistory_spec_display)
  have reaches: "resume_reaches_status ctx2 (trim args) w2"
    if "currentAuthType ctx2 = currentAuthType ctx" "checkIsRepo (repo w2) = Inr True"
    using that stored found tag nonempty by (simp add: resume_reaches_status_def)
  have loads: "fst (resumeCommand cr ctx2 args w2) =
      Inr (LoadHistory (uiHistory_loop [] (drop (INITIAL_HISTORY_LENGTH cr) H)) H)"
    if "currentAuthType ctx2 = currentAuthType ctx" "checkIsRepo (repo w2) = Inr True"
      "isClean (repo w2) = Inr True" "checkout (repo w2) h = None"
    using that reaches stored found by (simp add: resumeCommand_LoadHistory)
  have loads_spec: "fst (resumeCommand cr ctx2 args w2) =
      Inr (LoadHistory (spec_display (INITIAL_HISTORY_LENGTH cr) H) H)"
    if "currentAuthType ctx2 = currentAuthType ctx" "checkIsRepo (repo w2) = Inr True"
      "isClean (repo w2) = Inr True" "checkout (repo w2) h = None"
      "list_all plain_role (drop (INITIAL_HISTORY_LENGTH cr) H)"
    using loads [OF that(1-4)] that(5) by (simp add: uiHistory_spec_display)
  have refused: "fst (resumeCommand cr ctx2 args w2) =
      Inr (Message Error ''Git repo is not clean, unable to checkout.'')"
    if "currentAuthType ctx2 = currentAuthType ctx" "checkIsRepo (repo w2) = Inr True"
      "isClean (repo w2) = Inr False"
    using resumeCommand_dirty_message [OF that(3), of cr ctx2 args] reaches [OF that(1,2)]
    by simp
  from long written returned loads loads_spec refused show ?thesis by blast
qed

text \<open>
  The conversation of the test "should resume a conversation with matching authType",
  saved when the tree was not clean (a commit is made) and resumed when the status is
  clean.
\<close>

theorem save_resume_round_trip_witness:
  "fst (saveCommand core1 round_trip_ctx ''good-tag'' (resume_world [] dirty)) =
     Inr (Message Info (saved_message core1 (trim ''good-tag'') ''test-commit-hash'')) \<and>
   chat round_trip_ctx = Some three_turns \<and>
   INITIAL_HISTORY_LENGTH core1 < length three_turns \<and>
   list_all plain_role (drop (INITIAL_HISTORY_LENGTH core1) three_turns) \<and>
   fst (resumeCommand core1 round_trip_ctx ''good-tag''
          ((snd (saveCommand core1 round_trip_ctx ''good-tag'' (resume_world [] dirty)))
             \<lparr>repo := git_clean\<rparr>)) =
     Inr (LoadHistory
            [\<lparr>item_type = Enum USER, item_text = ''hello gemini''\<rparr>,
             \<lparr>item_type = Enum GEMINI, item_text = ''hello world''\<rparr>]
            three_turns)"
proof -
  let ?w1 = "snd (saveCommand core1 round_trip_ctx ''good-tag'' (resume_world [] dirty))"
  let ?w2 = "?w1\<lparr>repo := git_clean\<rparr>"
  have 1: "fst (saveCommand core1 round_trip_ctx ''good-tag'' (resume_world [] dirty)) =
      Inr (Message Info (saved_message core1 (trim ''good-tag'') ''test-commit-hash''))"
    by (simp add: Let_def save_defs fs_defs store_defs resume_ex_defs round_trip_ctx_def
        three_turns_def)
  have 2: "chat round_trip_ctx = Some three_turns"
    by (simp add: round_trip_ctx_def)
  have 3: "ledger_file ?w2 = ledger_file ?w1" "checkpoints ?w2 = checkpoints ?w1"
    by simp_all
  have 4: "currentAuthType round_trip_ctx = currentAuthType round_trip_ctx"
    "checkIsRepo (repo ?w2) = Inr True" "isClean (repo ?w2) = Inr True"
    "checkout (repo ?w2) ''test-commit-hash'' = None"
    by (simp_all add: git_clean_def)
  have 5: "spec_display (INITIAL_HISTORY_LENGTH core1) three_turns =
      [\<lparr>item_type = Enum USER, item_text = ''hello gemini''\<rparr>,
       \<lparr>item_type = Enum GEMINI, item_text = ''hello world''\<rparr>]"
    by (simp add: spec_display_def spec_role_def spec_text_def three_turns_def turn_def core1_def)
  have 6: "list_all plain_role (drop (INITIAL_HISTORY_LENGTH core1) three_turns)"
    by (simp add: plain_role_def Object_prototype_def three_turns_def turn_def core1_def)
  note rt = save_resume_round_trip [OF 1 2 3, where ?ctx2.0 = round_trip_ctx]
  have 7: "fst (resumeCommand core1 round_trip_ctx ''good-tag'' ?w2) =
      Inr (LoadHistory (spec_display (INITIAL_HISTORY_LENGTH core1) three_turns) three_turns)"
    using rt 4 6 by blast
  have 8: "INITIAL_HISTORY_LENGTH core1 < length three_turns"
    using rt by blast
  show ?thesis
    using 1 2 8 6 7 unfolding 5 by blast
qed

text \<open>
  C6 as stated fails in two ways. After the save above, a resume in the state that save
  left, where the status is still not clean (the ledger file lies in the work tree and
  was written after the commit), returns the message of the dirty tree and no history.
  And for a turn with the role \<^verbatim>\<open>constructor\<close>, the display item that resume returns
  does not have the type of the model, as the default for an unknown role would give,
  but the member that \<^verbatim>\<open>rolemap\<close> inherits under this name.
\<close>

theorem save_resume_refused_or_inherited_role:
  "fst (saveCommand core1 round_trip_ctx ''good-tag'' (resume_world [] dirty)) =
     Inr (Message Info
            ''Conversation checkpoint saved with tag: good-tag and git commit hash test-commit-hash.'') \<and>
   fst (resumeCommand core1 round_trip_ctx ''good-tag''
          (snd (saveCommand core1 round_trip_ctx ''good-tag'' (resume_world [] dirty)))) =
     Inr (Message Error ''Git repo is not clean, unable to checkout.'') \<and>
   fst (saveCommand core1 member_ctx ''good-tag'' (resume_world [] dirty)) =
     Inr (Message Info
            ''Conversation checkpoint saved with tag: good-tag and git commit hash test-commit-hash.'') \<and>
   fst (resumeCommand core1 member_ctx ''good-tag''
          ((snd (saveCommand core1 member_ctx ''good-tag'' (resume_world [] dirty)))
             \<lparr>repo := git_clean\<rparr>)) =
     Inr (LoadHistory [\<lparr>item_type = Member ''constructor'', item_text = ''hello''\<rparr>]
            member_turns) \<and>
   spec_display (INITIAL_HISTORY_LENGTH core1) member_turns =
     [\<lparr>item_type = Enum GEMINI, item_text = ''hello''\<rparr>]"
proof -
  have len: "length three_turns = 3" "length member_turns = 2"
    by (simp_all add: three_turns_def member_turns_def)
  have save1: "saveCommand core1 round_trip_ctx ''good-tag'' (resume_world [] dirty) =
      (Inr (Message Info
              ''Conversation checkpoint saved with tag: good-tag and git commit hash test-commit-hash.''),
       (resume_world [] dirty)
         \<lparr>ledger_file :=
            Readable (JSONArray [\<lparr>tag = ''good-tag'', commitHash = ''test-commit-hash''\<rparr>]),
          checkpoints :=
            [''good-tag'' \<mapsto> \<lparr>history = three_turns, authType = Some ''oauth-personal''\<rparr>],
          calls :=
            [Initialize, CheckIsRepo, Status, Add ''./*'',
             Commit ''commit made with chat-git tag good-tag'', Revparse,
             SaveCheckpoint \<lparr>history = three_turns, authType = Some ''oauth-personal''\<rparr>
               ''good-tag'',
             WriteFileSync
               (JSONArray [\<lparr>tag = ''good-tag'', commitHash = ''test-commit-hash''\<rparr>])]\<rparr>)"
    by (simp add: Let_def save_defs fs_defs store_defs resume_ex_defs round_trip_ctx_def len)
  have save2: "saveCommand core1 member_ctx ''good-tag'' (resume_world [] dirty) =
      (Inr (Message Info
              ''Conversation checkpoint saved with tag: good-tag and git commit hash test-commit-hash.''),
       (resume_world [] dirty)
         \<lparr>ledger_file :=
            Readable (JSONArray [\<lparr>tag = ''good-tag'', commitHash = ''test-commit-hash''\<rparr>]),
          checkpoints :=
            [''good-tag'' \<mapsto> \<lparr>history = member_turns, authType = Some ''oauth-personal''\<rparr>],
          calls :=
            [Initialize, CheckIsRepo, Status, Add ''./*'',
             Commit ''commit made with chat-git tag good-tag'', Revparse,
             SaveCheckpoint \<lparr>history = member_turns, authType = Some ''oauth-personal''\<rparr>
               ''good-tag'',
             WriteFileSync
               (JSONArray [\<lparr>tag = ''good-tag'', commitHash = ''test-commit-hash''\<rparr>])]\<rparr>)"
    by (simp add: Let_def save_defs fs_defs store_defs resume_ex_defs member_ctx_def len)
  have resume1: "fst (resumeCommand core1 round_trip_ctx ''good-tag''
          (snd (saveCommand core1 round_trip_ctx ''good-tag'' (resume_world [] dirty)))) =
     Inr (Message Error ''Git repo is not clean, unable to checkout.'')"
    unfolding save1
    by (simp add: Let_def resume_defs fs_defs store_defs resume_ex_defs round_trip_ctx_def
        three_turns_def auth_mismatch_def)
  have resume2: "fst (resumeCommand core1 member_ctx ''good-tag''
          ((snd (saveCommand core1 member_ctx ''good-tag'' (resume_world [] dirty)))
             \<lparr>repo := git_clean\<rparr>)) =
     Inr (LoadHistory [\<lparr>item_type = Member ''constructor'', item_text = ''hello''\<rparr>]
            member_turns)"
    unfolding save2
    by (simp add: Let_def resume_defs fs_defs store_defs resume_ex_defs member_ctx_def
        member_turns_def auth_mismatch_def item_parts_text_def item_role_type_def rolemap_def
        Object_prototype_def)
  have display: "spec_display (INITIAL_HISTORY_LENGTH core1) member_turns =
     [\<lparr>item_type = Enum GEMINI, item_text = ''hello''\<rparr>]"
    by (simp add: spec_display_def spec_role_def spec_text_def member_turns_def turn_def
        core1_def)
  from save1 save2 resume1 resume2 display show ?thesis
    by simp
qed

subsection \<open>List and completion\<close>

text \<open>Within the model, a text that is not JSON is the only failure that leaves the function.\<close>

lemma getSavedChatGitTags_throws:
  "(getSavedChatGitTags cr ctx mtSortDesc w = Inl e) = (ledger_file w = Readable (NotJSON e))"
  by (auto simp add: getSavedChatGitTags_def fs_defs
      split: file_state.splits json_text.splits option.splits sum.splits)

text \<open>
  C9. Every failure while the saved tags are enumerated should give an empty result. The
  code does so for an absent or unreadable file, a missing directory and a failing
  \<^verbatim>\<open>stat\<close>, but \<^verbatim>\<open>JSON.parse\<close> on line 50 is outside both \<^verbatim>\<open>try\<close> blocks: with a
  ledger file that is not JSON, the \<^verbatim>\<open>SyntaxError\<close> leaves \<^verbatim>\<open>getSavedChatGitTags\<close>,
  the list command and the completion.
\<close>

theorem list_malformed_ledger_throws:
  "getSavedChatGitTags core1 ctx0 False malformed_world =
     Inl ''SyntaxError: Unexpected end of JSON input'' \<and>
   listCommand core1 ctx0 malformed_world =
     (Inl ''SyntaxError: Unexpected end of JSON input'', malformed_world) \<and>
   completion core1 ctx0 [] malformed_world =
     Inl ''SyntaxError: Unexpected end of JSON input''"
  by (simp add: getSavedChatGitTags_def listCommand_def completion_def fs_defs
      malformed_world_def mk_world_def)

end
